theory Spec2Isabelle
  imports Complex_Main "HOL-Library.Word"
begin

unbundle bit_operations_syntax

section \<open>Squashfs inode decoding (kernel/fs/squashfs/inode.c)\<close>

text \<open>
  A shallow embedding of \<^verbatim>\<open>squashfs_new_inode\<close>, \<^verbatim>\<open>squashfs_iget\<close> and
  \<^verbatim>\<open>squashfs_read_inode\<close>. C integers are words of their width: \<^verbatim>\<open>long long\<close>
  is \<open>64 word\<close>, \<^verbatim>\<open>unsigned int\<close> is \<open>32 word\<close>, a 16-bit field is \<open>16 word\<close>.
  The \<^verbatim>\<open>int\<close> error code is an \<open>int\<close>; where the code converts it to or from
  \<^verbatim>\<open>unsigned int\<close> the conversion is written out.
\<close>

subsection \<open>Constants of the headers\<close>

text \<open>
  Modelled from the spec: the inode type discriminants of \<^verbatim>\<open>squashfs_fs.h\<close>, which is
  not among the sources. The format description gives 1 = directory, 2 = regular file,
  3 = symlink, 4 = block device, 5 = char device, 6 = fifo, 7 = socket, 8 = extended
  directory, 9 = extended regular file. inode.c names these nine and no other.
\<close>

definition SQUASHFS_DIR_TYPE :: int where "SQUASHFS_DIR_TYPE = 1"
definition SQUASHFS_FILE_TYPE :: int where "SQUASHFS_FILE_TYPE = 2"
definition SQUASHFS_SYMLINK_TYPE :: int where "SQUASHFS_SYMLINK_TYPE = 3"
definition SQUASHFS_BLKDEV_TYPE :: int where "SQUASHFS_BLKDEV_TYPE = 4"
definition SQUASHFS_CHRDEV_TYPE :: int where "SQUASHFS_CHRDEV_TYPE = 5"
definition SQUASHFS_FIFO_TYPE :: int where "SQUASHFS_FIFO_TYPE = 6"
definition SQUASHFS_SOCKET_TYPE :: int where "SQUASHFS_SOCKET_TYPE = 7"
definition SQUASHFS_LDIR_TYPE :: int where "SQUASHFS_LDIR_TYPE = 8"
definition SQUASHFS_LREG_TYPE :: int where "SQUASHFS_LREG_TYPE = 9"

lemmas squashfs_types =
  SQUASHFS_DIR_TYPE_def SQUASHFS_FILE_TYPE_def SQUASHFS_SYMLINK_TYPE_def
  SQUASHFS_BLKDEV_TYPE_def SQUASHFS_CHRDEV_TYPE_def SQUASHFS_FIFO_TYPE_def
  SQUASHFS_SOCKET_TYPE_def SQUASHFS_LDIR_TYPE_def SQUASHFS_LREG_TYPE_def

text \<open>
  Modelled from the spec: the reserved "no fragment" index of \<^verbatim>\<open>squashfs_fs.h\<close> is
  the all-ones 32-bit pattern.
\<close>

definition SQUASHFS_INVALID_FRAG :: "32 word" where
  "SQUASHFS_INVALID_FRAG = 0xffffffff"

text \<open>
  The file type bits of \<^verbatim>\<open>linux/stat.h\<close> (octal 0040000, 0100000, 0120000, 0020000,
  0060000, 0010000, 0140000) and the error numbers of \<^verbatim>\<open>errno.h\<close>.
\<close>

definition S_IFDIR :: "16 word" where "S_IFDIR = 0x4000"
definition S_IFREG :: "16 word" where "S_IFREG = 0x8000"
definition S_IFLNK :: "16 word" where "S_IFLNK = 0xA000"
definition S_IFCHR :: "16 word" where "S_IFCHR = 0x2000"
definition S_IFBLK :: "16 word" where "S_IFBLK = 0x6000"
definition S_IFIFO :: "16 word" where "S_IFIFO = 0x1000"
definition S_IFSOCK :: "16 word" where "S_IFSOCK = 0xC000"

lemmas stat_bits =
  S_IFDIR_def S_IFREG_def S_IFLNK_def S_IFCHR_def S_IFBLK_def S_IFIFO_def S_IFSOCK_def

definition ENOMEM :: int where "ENOMEM = 12"
definition EINVAL :: int where "EINVAL = 22"

text \<open>
  The byte-order conversions of \<^verbatim>\<open>linux/byteorder\<close>, with the byte order of the host
  as first argument (\<open>True\<close> for a big-endian host). A field of a structure is the value
  the host reads from the buffer: on a little-endian host that is the stored value and
  the conversion is the identity, on a big-endian host it is the stored value with its
  bytes reversed and the conversion reverses them again. The swaps are those of
  \<^verbatim>\<open>linux/swab.h\<close>.
\<close>

definition swab16 :: "16 word \<Rightarrow> 16 word" where
  "swab16 x = push_bit 8 (x AND 0x00ff) OR drop_bit 8 (x AND 0xff00)"

definition swab32 :: "32 word \<Rightarrow> 32 word" where
  "swab32 x =
     push_bit 24 (x AND 0x000000ff) OR push_bit 8 (x AND 0x0000ff00)
     OR drop_bit 8 (x AND 0x00ff0000) OR drop_bit 24 (x AND 0xff000000)"

definition swab64 :: "64 word \<Rightarrow> 64 word" where
  "swab64 x =
     push_bit 56 (x AND 0x00000000000000ff) OR push_bit 40 (x AND 0x000000000000ff00)
     OR push_bit 24 (x AND 0x0000000000ff0000) OR push_bit 8 (x AND 0x00000000ff000000)
     OR drop_bit 8 (x AND 0x000000ff00000000) OR drop_bit 24 (x AND 0x0000ff0000000000)
     OR drop_bit 40 (x AND 0x00ff000000000000) OR drop_bit 56 (x AND 0xff00000000000000)"

definition le16_to_cpu :: "bool \<Rightarrow> 16 word \<Rightarrow> 16 word" where
  "le16_to_cpu big x = (if big then swab16 x else x)"

definition le32_to_cpu :: "bool \<Rightarrow> 32 word \<Rightarrow> 32 word" where
  "le32_to_cpu big x = (if big then swab32 x else x)"

definition le64_to_cpu :: "bool \<Rightarrow> 64 word \<Rightarrow> 64 word" where
  "le64_to_cpu big x = (if big then swab64 x else x)"

lemmas le_to_cpu =
  le16_to_cpu_def le32_to_cpu_def le64_to_cpu_def swab16_def swab32_def swab64_def

subsection \<open>The inode locator\<close>

text \<open>
  Modelled from the spec: the macros \<^verbatim>\<open>SQUASHFS_INODE_BLK\<close> and
  \<^verbatim>\<open>SQUASHFS_INODE_OFFSET\<close> that inode.c applies to the \<^verbatim>\<open>long long\<close> inode
  locator are declared in \<^verbatim>\<open>squashfs_fs.h\<close>, which is not among the sources. The
  format description splits the 48-bit locator into the intra-block byte offset (the low
  16 bits) and the block offset (the bits above); inode.c reads both as
  \<^verbatim>\<open>unsigned int\<close>.
\<close>

definition SQUASHFS_INODE_BLK :: "64 word \<Rightarrow> 32 word" where
  "SQUASHFS_INODE_BLK A = ucast (drop_bit 16 A)"

definition SQUASHFS_INODE_OFFSET :: "64 word \<Rightarrow> 32 word" where
  "SQUASHFS_INODE_OFFSET A = ucast (A AND 0xffff)"

definition decompose :: "64 word \<Rightarrow> 32 word \<times> 32 word" where
  "decompose locator = (SQUASHFS_INODE_BLK locator, SQUASHFS_INODE_OFFSET locator)"

text \<open>
  Modelled from the spec: the inverse packing, which inode.c never calls. The block goes
  into the bits above the 16-bit offset field.
\<close>

definition compose :: "32 word \<Rightarrow> 32 word \<Rightarrow> 64 word" where
  "compose block offset = push_bit 16 (ucast block) OR ucast offset"

subsection \<open>On-disk records\<close>

text \<open>
  The structures of \<^verbatim>\<open>union squashfs_inode\<close>. Each record holds the fields inode.c
  reads, at the width of the \<^verbatim>\<open>le16_to_cpu\<close>, \<^verbatim>\<open>le32_to_cpu\<close> or \<^verbatim>\<open>le64_to_cpu\<close>
  applied to it; a field \<^verbatim>\<open>f\<close> of \<^verbatim>\<open>struct squashfs_reg_inode\<close> is \<open>reg_f\<close>, and so
  on for the other structures.
\<close>

record squashfs_base_inode =
  base_inode_type :: "16 word"
  base_mode :: "16 word"
  base_uid :: "16 word"
  base_guid :: "16 word"
  base_mtime :: "32 word"
  base_inode_number :: "32 word"

record squashfs_reg_inode =
  reg_start_block :: "32 word"
  reg_fragment :: "32 word"
  reg_offset :: "32 word"
  reg_file_size :: "32 word"

record squashfs_lreg_inode =
  lreg_start_block :: "64 word"
  lreg_file_size :: "64 word"
  lreg_sparse :: "64 word"
  lreg_nlink :: "32 word"
  lreg_fragment :: "32 word"
  lreg_offset :: "32 word"

record squashfs_dir_inode =
  dir_start_block :: "32 word"
  dir_nlink :: "32 word"
  dir_file_size :: "16 word"
  dir_offset :: "16 word"
  dir_parent_inode :: "32 word"

record squashfs_ldir_inode =
  ldir_nlink :: "32 word"
  ldir_file_size :: "32 word"
  ldir_start_block :: "32 word"
  ldir_parent_inode :: "32 word"
  ldir_i_count :: "16 word"
  ldir_offset :: "16 word"

record squashfs_symlink_inode =
  symlink_nlink :: "32 word"
  symlink_symlink_size :: "32 word"

record squashfs_dev_inode =
  dev_nlink :: "32 word"
  dev_rdev :: "32 word"

record squashfs_ipc_inode =
  ipc_nlink :: "32 word"

text \<open>
  The declarations of \<^verbatim>\<open>squashfs_fs.h\<close> that inode.c uses and that are not among the
  sources are parameters: for each structure its \<^verbatim>\<open>sizeof\<close> and the view of a buffer of
  bytes as that structure (the members of the union overlay one buffer), and the
  constant \<^verbatim>\<open>SQUASHFS_INVALID_BLK\<close>.
\<close>

record squashfs_fs =
  sizeof_base :: nat
  as_base :: "8 word list \<Rightarrow> squashfs_base_inode"
  sizeof_reg :: nat
  as_reg :: "8 word list \<Rightarrow> squashfs_reg_inode"
  sizeof_lreg :: nat
  as_lreg :: "8 word list \<Rightarrow> squashfs_lreg_inode"
  sizeof_dir :: nat
  as_dir :: "8 word list \<Rightarrow> squashfs_dir_inode"
  sizeof_ldir :: nat
  as_ldir :: "8 word list \<Rightarrow> squashfs_ldir_inode"
  sizeof_symlink :: nat
  as_symlink :: "8 word list \<Rightarrow> squashfs_symlink_inode"
  sizeof_dev :: nat
  as_dev :: "8 word list \<Rightarrow> squashfs_dev_inode"
  sizeof_ipc :: nat
  as_ipc :: "8 word list \<Rightarrow> squashfs_ipc_inode"
  SQUASHFS_INVALID_BLK :: "64 word"

subsection \<open>The VFS inode\<close>

datatype inode_operations = squashfs_dir_inode_ops | page_symlink_inode_operations

datatype file_operations =
  generic_ro_fops | squashfs_dir_ops | def_chr_fops | def_blk_fops | def_fifo_fops
  | bad_sock_fops

datatype address_space_operations = squashfs_aops | squashfs_symlink_aops

text \<open>
  \<^verbatim>\<open>struct inode\<close> with the fields inode.c writes; \<open>sq_f\<close> is the field \<^verbatim>\<open>f\<close> of the
  \<^verbatim>\<open>struct squashfs_inode_info\<close> that \<^verbatim>\<open>SQUASHFS_I(i)\<close> yields. \<open>i_size\<close> is the signed
  64-bit \<^verbatim>\<open>loff_t\<close> and \<open>i_blocks\<close> the unsigned 64-bit \<^verbatim>\<open>blkcnt_t\<close>, both as
  \<open>64 word\<close>; \<open>i_mode\<close> is the 16-bit \<^verbatim>\<open>umode_t\<close>. The other fields hold the value
  assigned, at the width it is read from disk.
\<close>

record inode =
  i_ino :: "32 word"
  i_mode :: "16 word"
  i_uid :: "32 word"
  i_gid :: "32 word"
  i_nlink :: "32 word"
  i_size :: "64 word"
  i_blocks :: "64 word"
  i_mtime_tv_sec :: "32 word"
  i_atime_tv_sec :: "32 word"
  i_ctime_tv_sec :: "32 word"
  i_rdev :: "32 word"
  i_op :: "inode_operations option"
  i_fop :: "file_operations option"
  i_data_a_ops :: "address_space_operations option"
  sq_start_block :: "64 word"
  sq_block_list_start :: "64 word"
  sq_offset :: "32 word"
  sq_fragment_block :: "64 word"
  sq_fragment_size :: "32 word"
  sq_fragment_offset :: "32 word"
  sq_dir_index_start :: "64 word"
  sq_dir_index_offset :: "32 word"
  sq_dir_index_count :: "32 word"
  sq_parent_inode :: "32 word"

text \<open>The three outcomes of \<^verbatim>\<open>iget_locked\<close> that \<^verbatim>\<open>squashfs_iget\<close> tells apart.\<close>

datatype iget =
  NULL \<comment> \<open>no memory\<close>
  | Cached inode \<comment> \<open>\<^verbatim>\<open>I_NEW\<close> is clear in \<^verbatim>\<open>i_state\<close>\<close>
  | New inode \<comment> \<open>\<^verbatim>\<open>I_NEW\<close> is set\<close>

subsection \<open>The super block and its collaborators\<close>

text \<open>
  The functions inode.c calls and does not define are fields of the super block they
  take as first argument. \<open>squashfs_read_metadata s block offset length\<close> returns the
  error code, the bytes copied into the buffer, and the block and offset it advanced to.
  \<open>squashfs_get_id s index\<close> returns the error code and the id it stores;
  \<open>get_fragment_location s fragment\<close> returns its \<^verbatim>\<open>int\<close> result and the block it
  stores. \<open>big_endian s\<close> is the byte order of the host on which the file system is
  mounted.
\<close>

record super_block =
  big_endian :: bool
  inode_table_start :: "64 word"
  squashfs_read_metadata ::
    "64 word \<Rightarrow> 32 word \<Rightarrow> nat \<Rightarrow> int \<times> 8 word list \<times> 64 word \<times> 32 word"
  squashfs_get_id :: "16 word \<Rightarrow> int \<times> 32 word"
  get_fragment_location :: "32 word \<Rightarrow> int \<times> 64 word"
  iget_locked :: "32 word \<Rightarrow> iget"

text \<open>
  What a call leaves behind for an observer: the calls to the collaborators, in order,
  and the two \<^verbatim>\<open>ERROR\<close> messages. (\<^verbatim>\<open>TRACE\<close> prints only in debugging builds.)
\<close>

datatype event =
  Read_metadata "64 word" "32 word" nat
  | Get_id "16 word"
  | Get_fragment_location "32 word"
  | ERROR_unknown_inode_type int
  | ERROR_unable_to_read_inode "64 word"

subsection \<open>Kernel helpers\<close>

text \<open>\<^verbatim>\<open>new_decode_dev\<close> of \<^verbatim>\<open>linux/kdev_t.h\<close>, with \<^verbatim>\<open>MKDEV\<close> unfolded.\<close>

definition new_decode_dev :: "32 word \<Rightarrow> 32 word" where
  "new_decode_dev dev =
     (let major = drop_bit 8 (dev AND 0xfff00);
          minor = (dev AND 0xff) OR (drop_bit 12 dev AND 0xfff00)
      in push_bit 20 major OR minor)"

text \<open>
  \<^verbatim>\<open>init_special_inode\<close> of the kernel's \<^verbatim>\<open>fs/inode.c\<close>: it stores the mode, and picks
  the file operations (and stores the device number) by the file type bits of the mode.
\<close>

definition S_IFMT :: "16 word" where "S_IFMT = 0xF000"

definition init_special_inode :: "inode \<Rightarrow> 16 word \<Rightarrow> 32 word \<Rightarrow> inode" where
  "init_special_inode i m rdev =
     (let i = i\<lparr>i_mode := m\<rparr> in
      if m AND S_IFMT = S_IFCHR then i\<lparr>i_fop := Some def_chr_fops, i_rdev := rdev\<rparr>
      else if m AND S_IFMT = S_IFBLK then i\<lparr>i_fop := Some def_blk_fops, i_rdev := rdev\<rparr>
      else if m AND S_IFMT = S_IFIFO then i\<lparr>i_fop := Some def_fifo_fops\<rparr>
      else if m AND S_IFMT = S_IFSOCK then i\<lparr>i_fop := Some bad_sock_fops\<rparr>
      else i)"

subsection \<open>squashfs_new_inode\<close>

text \<open>
  A function returns the error code, the inode as the call leaves it, and the events of
  the call. The inode is updated in place in C, so a failed call leaves behind the
  fields written before the failure.
\<close>

type_synonym outcome = "int \<times> inode \<times> event list"

definition squashfs_new_inode ::
    "super_block \<Rightarrow> inode \<Rightarrow> squashfs_base_inode \<Rightarrow> outcome" where
  "squashfs_new_inode s i inodeb =
     (case squashfs_get_id s (le16_to_cpu (big_endian s) (base_uid inodeb)) of (err, uid) \<Rightarrow>
        if err \<noteq> 0 then (err, i, [Get_id (le16_to_cpu (big_endian s) (base_uid inodeb))])
        else
          (case squashfs_get_id s (le16_to_cpu (big_endian s) (base_guid inodeb)) of (err, gid) \<Rightarrow>
             if err \<noteq> 0
             then (err, i\<lparr>i_uid := uid\<rparr>,
                   [Get_id (le16_to_cpu (big_endian s) (base_uid inodeb)),
                    Get_id (le16_to_cpu (big_endian s) (base_guid inodeb))])
             else
               (err,
                i\<lparr>i_uid := uid, i_gid := gid,
                  i_ino := le32_to_cpu (big_endian s) (base_inode_number inodeb),
                  i_mtime_tv_sec := le32_to_cpu (big_endian s) (base_mtime inodeb),
                  i_atime_tv_sec := le32_to_cpu (big_endian s) (base_mtime inodeb),
                  i_ctime_tv_sec := le32_to_cpu (big_endian s) (base_mtime inodeb),
                  i_mode := le16_to_cpu (big_endian s) (base_mode inodeb),
                  i_size := 0\<rparr>,
                [Get_id (le16_to_cpu (big_endian s) (base_uid inodeb)),
                 Get_id (le16_to_cpu (big_endian s) (base_guid inodeb))])))"

subsection \<open>squashfs_read_inode\<close>

text \<open>The label \<^verbatim>\<open>failed_read\<close>: the message, then the error code is returned.\<close>

definition failed_read :: "64 word \<Rightarrow> int \<Rightarrow> inode \<Rightarrow> event list \<Rightarrow> outcome" where
  "failed_read inode err i tr = (err, i, tr @ [ERROR_unable_to_read_inode inode])"

text \<open>
  The fragment lookup, written twice in inode.c (for \<^verbatim>\<open>SQUASHFS_FILE_TYPE\<close> and for
  \<^verbatim>\<open>SQUASHFS_LREG_TYPE\<close>) with the same text. \<^verbatim>\<open>frag_size\<close> is an \<^verbatim>\<open>unsigned int\<close>:
  the \<^verbatim>\<open>int\<close> that \<^verbatim>\<open>get_fragment_location\<close> returns is converted to it, and the test
  \<^verbatim>\<open>frag_size < 0\<close> is a comparison of unsigned values. The result is the error code of
  the \<^verbatim>\<open>goto failed_read\<close>, or \<^verbatim>\<open>frag_blk\<close>, \<^verbatim>\<open>frag_size\<close> and \<^verbatim>\<open>frag_offset\<close>; with it
  come the events.
\<close>

definition fragment_lookup ::
    "super_block \<Rightarrow> squashfs_fs \<Rightarrow> 32 word \<Rightarrow> 32 word
      \<Rightarrow> (int + 64 word \<times> 32 word \<times> 32 word) \<times> event list" where
  "fragment_lookup s fs frag inodep_offset =
     (if frag \<noteq> SQUASHFS_INVALID_FRAG then
        (let frag_offset = le32_to_cpu (big_endian s) inodep_offset in
         case get_fragment_location s frag of (ret, frag_blk) \<Rightarrow>
           (let frag_size = (word_of_int ret :: 32 word) in
            if frag_size < 0 then (Inl (sint frag_size), [Get_fragment_location frag])
            else (Inr (frag_blk, frag_size, frag_offset), [Get_fragment_location frag])))
      else (Inr (SQUASHFS_INVALID_BLK fs, 0, 0), []))"

text \<open>
  One definition for each \<^verbatim>\<open>case\<close> of the \<^verbatim>\<open>switch\<close>. Each takes the block and offset
  as reset before the \<^verbatim>\<open>switch\<close> and returns the events of its own calls only. The
  right shift of the signed \<^verbatim>\<open>i_size - 1\<close> is arithmetic (\<open>signed_drop_bit\<close>), as gcc
  compiles it; in the extended case the subtraction of the unsigned 64-bit
  \<^verbatim>\<open>sparse\<close> makes the whole expression unsigned, and the shift logical.
\<close>

definition read_FILE_TYPE ::
    "super_block \<Rightarrow> squashfs_fs \<Rightarrow> inode \<Rightarrow> 64 word \<Rightarrow> 64 word \<Rightarrow> 32 word \<Rightarrow> outcome" where
  "read_FILE_TYPE s fs i inode block offset =
     (case squashfs_read_metadata s block offset (sizeof_reg fs) of
        (err, buf, block', offset') \<Rightarrow>
          if err < 0
          then failed_read inode err i [Read_metadata block offset (sizeof_reg fs)]
          else
            (let inodep = as_reg fs buf;
                 frag = le32_to_cpu (big_endian s) (reg_fragment inodep)
             in case fragment_lookup s fs frag (reg_offset inodep) of
                  (Inl err, tr) \<Rightarrow>
                    failed_read inode err i
                      (Read_metadata block offset (sizeof_reg fs) # tr)
                | (Inr (frag_blk, frag_size, frag_offset), tr) \<Rightarrow>
                    (let i_size' = (ucast (le32_to_cpu (big_endian s) (reg_file_size inodep)) :: 64 word)
                     in (0,
                         i\<lparr>i_nlink := 1,
                           i_size := i_size',
                           i_fop := Some generic_ro_fops,
                           i_mode := i_mode i OR S_IFREG,
                           i_blocks := signed_drop_bit 9 (i_size' - 1) + 1,
                           sq_fragment_block := frag_blk,
                           sq_fragment_size := frag_size,
                           sq_fragment_offset := frag_offset,
                           sq_start_block := ucast (le32_to_cpu (big_endian s) (reg_start_block inodep)),
                           sq_block_list_start := block',
                           sq_offset := offset',
                           i_data_a_ops := Some squashfs_aops\<rparr>,
                         Read_metadata block offset (sizeof_reg fs) # tr))))"

definition read_LREG_TYPE ::
    "super_block \<Rightarrow> squashfs_fs \<Rightarrow> inode \<Rightarrow> 64 word \<Rightarrow> 64 word \<Rightarrow> 32 word \<Rightarrow> outcome" where
  "read_LREG_TYPE s fs i inode block offset =
     (case squashfs_read_metadata s block offset (sizeof_lreg fs) of
        (err, buf, block', offset') \<Rightarrow>
          if err < 0
          then failed_read inode err i [Read_metadata block offset (sizeof_lreg fs)]
          else
            (let inodep = as_lreg fs buf;
                 frag = le32_to_cpu (big_endian s) (lreg_fragment inodep)
             in case fragment_lookup s fs frag (lreg_offset inodep) of
                  (Inl err, tr) \<Rightarrow>
                    failed_read inode err i
                      (Read_metadata block offset (sizeof_lreg fs) # tr)
                | (Inr (frag_blk, frag_size, frag_offset), tr) \<Rightarrow>
                    (let i_size' = le64_to_cpu (big_endian s) (lreg_file_size inodep)
                     in (0,
                         i\<lparr>i_nlink := le32_to_cpu (big_endian s) (lreg_nlink inodep),
                           i_size := i_size',
                           i_fop := Some generic_ro_fops,
                           i_mode := i_mode i OR S_IFREG,
                           i_blocks :=
                             drop_bit 9 (i_size' - le64_to_cpu (big_endian s) (lreg_sparse inodep) - 1) + 1,
                           sq_fragment_block := frag_blk,
                           sq_fragment_size := frag_size,
                           sq_fragment_offset := frag_offset,
                           sq_start_block := le64_to_cpu (big_endian s) (lreg_start_block inodep),
                           sq_block_list_start := block',
                           sq_offset := offset',
                           i_data_a_ops := Some squashfs_aops\<rparr>,
                         Read_metadata block offset (sizeof_lreg fs) # tr))))"

definition read_DIR_TYPE ::
    "super_block \<Rightarrow> squashfs_fs \<Rightarrow> inode \<Rightarrow> 64 word \<Rightarrow> 64 word \<Rightarrow> 32 word \<Rightarrow> outcome" where
  "read_DIR_TYPE s fs i inode block offset =
     (case squashfs_read_metadata s block offset (sizeof_dir fs) of
        (err, buf, block', offset') \<Rightarrow>
          if err < 0
          then failed_read inode err i [Read_metadata block offset (sizeof_dir fs)]
          else
            (let inodep = as_dir fs buf
             in (0,
                 i\<lparr>i_nlink := le32_to_cpu (big_endian s) (dir_nlink inodep),
                   i_size := ucast (le16_to_cpu (big_endian s) (dir_file_size inodep)),
                   i_op := Some squashfs_dir_inode_ops,
                   i_fop := Some squashfs_dir_ops,
                   i_mode := i_mode i OR S_IFDIR,
                   sq_start_block := ucast (le32_to_cpu (big_endian s) (dir_start_block inodep)),
                   sq_offset := ucast (le16_to_cpu (big_endian s) (dir_offset inodep)),
                   sq_dir_index_count := 0,
                   sq_parent_inode := le32_to_cpu (big_endian s) (dir_parent_inode inodep)\<rparr>,
                 [Read_metadata block offset (sizeof_dir fs)])))"

definition read_LDIR_TYPE ::
    "super_block \<Rightarrow> squashfs_fs \<Rightarrow> inode \<Rightarrow> 64 word \<Rightarrow> 64 word \<Rightarrow> 32 word \<Rightarrow> outcome" where
  "read_LDIR_TYPE s fs i inode block offset =
     (case squashfs_read_metadata s block offset (sizeof_ldir fs) of
        (err, buf, block', offset') \<Rightarrow>
          if err < 0
          then failed_read inode err i [Read_metadata block offset (sizeof_ldir fs)]
          else
            (let inodep = as_ldir fs buf
             in (0,
                 i\<lparr>i_nlink := le32_to_cpu (big_endian s) (ldir_nlink inodep),
                   i_size := ucast (le32_to_cpu (big_endian s) (ldir_file_size inodep)),
                   i_op := Some squashfs_dir_inode_ops,
                   i_fop := Some squashfs_dir_ops,
                   i_mode := i_mode i OR S_IFDIR,
                   sq_start_block := ucast (le32_to_cpu (big_endian s) (ldir_start_block inodep)),
                   sq_offset := ucast (le16_to_cpu (big_endian s) (ldir_offset inodep)),
                   sq_dir_index_start := block',
                   sq_dir_index_offset := offset',
                   sq_dir_index_count := ucast (le16_to_cpu (big_endian s) (ldir_i_count inodep)),
                   sq_parent_inode := le32_to_cpu (big_endian s) (ldir_parent_inode inodep)\<rparr>,
                 [Read_metadata block offset (sizeof_ldir fs)])))"

definition read_SYMLINK_TYPE ::
    "super_block \<Rightarrow> squashfs_fs \<Rightarrow> inode \<Rightarrow> 64 word \<Rightarrow> 64 word \<Rightarrow> 32 word \<Rightarrow> outcome" where
  "read_SYMLINK_TYPE s fs i inode block offset =
     (case squashfs_read_metadata s block offset (sizeof_symlink fs) of
        (err, buf, block', offset') \<Rightarrow>
          if err < 0
          then failed_read inode err i [Read_metadata block offset (sizeof_symlink fs)]
          else
            (let inodep = as_symlink fs buf
             in (0,
                 i\<lparr>i_nlink := le32_to_cpu (big_endian s) (symlink_nlink inodep),
                   i_size := ucast (le32_to_cpu (big_endian s) (symlink_symlink_size inodep)),
                   i_op := Some page_symlink_inode_operations,
                   i_data_a_ops := Some squashfs_symlink_aops,
                   i_mode := i_mode i OR S_IFLNK,
                   sq_start_block := block',
                   sq_offset := offset'\<rparr>,
                 [Read_metadata block offset (sizeof_symlink fs)])))"

text \<open>The two labels \<^verbatim>\<open>SQUASHFS_BLKDEV_TYPE\<close> and \<^verbatim>\<open>SQUASHFS_CHRDEV_TYPE\<close> share a body.\<close>

definition read_DEV_TYPE ::
    "super_block \<Rightarrow> squashfs_fs \<Rightarrow> inode \<Rightarrow> 64 word \<Rightarrow> int \<Rightarrow> 64 word \<Rightarrow> 32 word
      \<Rightarrow> outcome" where
  "read_DEV_TYPE s fs i inode type block offset =
     (case squashfs_read_metadata s block offset (sizeof_dev fs) of
        (err, buf, block', offset') \<Rightarrow>
          if err < 0
          then failed_read inode err i [Read_metadata block offset (sizeof_dev fs)]
          else
            (let inodep = as_dev fs buf;
                 i = i\<lparr>i_nlink := le32_to_cpu (big_endian s) (dev_nlink inodep)\<rparr>;
                 i = i\<lparr>i_mode :=
                        i_mode i OR (if type = SQUASHFS_CHRDEV_TYPE then S_IFCHR else S_IFBLK)\<rparr>;
                 rdev = le32_to_cpu (big_endian s) (dev_rdev inodep)
             in (0,
                 init_special_inode i (le16_to_cpu (big_endian s) (i_mode i)) (new_decode_dev rdev),
                 [Read_metadata block offset (sizeof_dev fs)])))"

text \<open>So do \<^verbatim>\<open>SQUASHFS_FIFO_TYPE\<close> and \<^verbatim>\<open>SQUASHFS_SOCKET_TYPE\<close>.\<close>

definition read_IPC_TYPE ::
    "super_block \<Rightarrow> squashfs_fs \<Rightarrow> inode \<Rightarrow> 64 word \<Rightarrow> int \<Rightarrow> 64 word \<Rightarrow> 32 word
      \<Rightarrow> outcome" where
  "read_IPC_TYPE s fs i inode type block offset =
     (case squashfs_read_metadata s block offset (sizeof_ipc fs) of
        (err, buf, block', offset') \<Rightarrow>
          if err < 0
          then failed_read inode err i [Read_metadata block offset (sizeof_ipc fs)]
          else
            (let inodep = as_ipc fs buf;
                 i = i\<lparr>i_nlink := le32_to_cpu (big_endian s) (ipc_nlink inodep)\<rparr>;
                 i = i\<lparr>i_mode :=
                        i_mode i OR (if type = SQUASHFS_FIFO_TYPE then S_IFIFO else S_IFSOCK)\<rparr>
             in (0,
                 init_special_inode i (le16_to_cpu (big_endian s) (i_mode i)) 0,
                 [Read_metadata block offset (sizeof_ipc fs)])))"

text \<open>
  The \<^verbatim>\<open>switch\<close> itself, with the \<^verbatim>\<open>default\<close> label: the message, and \<^verbatim>\<open>-EINVAL\<close> returned
  through \<^verbatim>\<open>failed_read1\<close>, which prints nothing more.
\<close>

definition switch_type ::
    "super_block \<Rightarrow> squashfs_fs \<Rightarrow> inode \<Rightarrow> 64 word \<Rightarrow> int \<Rightarrow> 64 word \<Rightarrow> 32 word
      \<Rightarrow> outcome" where
  "switch_type s fs i inode type block offset =
     (if type = SQUASHFS_FILE_TYPE then read_FILE_TYPE s fs i inode block offset
      else if type = SQUASHFS_LREG_TYPE then read_LREG_TYPE s fs i inode block offset
      else if type = SQUASHFS_DIR_TYPE then read_DIR_TYPE s fs i inode block offset
      else if type = SQUASHFS_LDIR_TYPE then read_LDIR_TYPE s fs i inode block offset
      else if type = SQUASHFS_SYMLINK_TYPE then read_SYMLINK_TYPE s fs i inode block offset
      else if type = SQUASHFS_BLKDEV_TYPE \<or> type = SQUASHFS_CHRDEV_TYPE
        then read_DEV_TYPE s fs i inode type block offset
      else if type = SQUASHFS_FIFO_TYPE \<or> type = SQUASHFS_SOCKET_TYPE
        then read_IPC_TYPE s fs i inode type block offset
      else (- EINVAL, i, [ERROR_unknown_inode_type type]))"

definition squashfs_read_inode ::
    "super_block \<Rightarrow> squashfs_fs \<Rightarrow> inode \<Rightarrow> 64 word \<Rightarrow> outcome" where
  "squashfs_read_inode s fs i inode =
     (let block = ucast (SQUASHFS_INODE_BLK inode) + inode_table_start s;
          offset = SQUASHFS_INODE_OFFSET inode
      in case squashfs_read_metadata s block offset (sizeof_base fs) of
           (err, buf, block', offset') \<Rightarrow>
             if err < 0
             then failed_read inode err i [Read_metadata block offset (sizeof_base fs)]
             else
               (let inodeb = as_base fs buf
                in case squashfs_new_inode s i inodeb of
                     (err, i, tr) \<Rightarrow>
                       if err \<noteq> 0
                       then failed_read inode err i
                              (Read_metadata block offset (sizeof_base fs) # tr)
                       else
                         (let block = ucast (SQUASHFS_INODE_BLK inode) + inode_table_start s;
                              offset = SQUASHFS_INODE_OFFSET inode;
                              type = uint (le16_to_cpu (big_endian s) (base_inode_type inodeb))
                          in case switch_type s fs i inode type block offset of
                               (err, i, tr') \<Rightarrow>
                                 (err, i,
                                  Read_metadata block offset (sizeof_base fs) # tr @ tr'))))"

subsection \<open>squashfs_iget\<close>

text \<open>
  The result is the inode, or \<^verbatim>\<open>ERR_PTR(err)\<close> as \<open>Inl err\<close>; with it come the events.
  After \<^verbatim>\<open>iget_failed\<close> the caller holds no inode.
\<close>

definition squashfs_iget ::
    "super_block \<Rightarrow> squashfs_fs \<Rightarrow> 64 word \<Rightarrow> 32 word \<Rightarrow> (int + inode) \<times> event list" where
  "squashfs_iget s fs inode inode_number =
     (case iget_locked s inode_number of
        NULL \<Rightarrow> (Inl (- ENOMEM), [])
      | Cached i \<Rightarrow> (Inr i, [])
      | New i \<Rightarrow>
          (case squashfs_read_inode s fs i inode of
             (err, i', tr) \<Rightarrow> if err \<noteq> 0 then (Inl err, tr) else (Inr i', tr)))"

subsection \<open>Notions for stating the properties\<close>

text \<open>
  \<open>read_at s inode n\<close> is the call \<^verbatim>\<open>squashfs_read_metadata\<close> of \<open>n\<close> bytes at the block
  and offset that \<^verbatim>\<open>squashfs_read_inode\<close> computes from the locator; \<open>header\<close> is the
  base inode \<^verbatim>\<open>inodeb\<close> that the first read delivers and \<open>header_type\<close> the value of the
  local \<^verbatim>\<open>type\<close>.
\<close>

definition read_at ::
    "super_block \<Rightarrow> 64 word \<Rightarrow> nat \<Rightarrow> int \<times> 8 word list \<times> 64 word \<times> 32 word" where
  "read_at s inode n =
     squashfs_read_metadata s (ucast (SQUASHFS_INODE_BLK inode) + inode_table_start s)
       (SQUASHFS_INODE_OFFSET inode) n"

definition header :: "super_block \<Rightarrow> squashfs_fs \<Rightarrow> 64 word \<Rightarrow> squashfs_base_inode" where
  "header s fs inode = as_base fs (fst (snd (read_at s inode (sizeof_base fs))))"

definition header_type :: "super_block \<Rightarrow> squashfs_fs \<Rightarrow> 64 word \<Rightarrow> int" where
  "header_type s fs inode = uint (le16_to_cpu (big_endian s) (base_inode_type (header s fs inode)))"

text \<open>
  The block at which both reads start; \<open>reg_record\<close> and \<open>lreg_record\<close> are the
  structures \<^verbatim>\<open>inodep\<close> that the second read delivers in the two regular-file cases.
  \<open>with_events pre r\<close> is the outcome \<open>r\<close> with the earlier events \<open>pre\<close> in front.
\<close>

definition inode_block :: "super_block \<Rightarrow> 64 word \<Rightarrow> 64 word" where
  "inode_block s inode = ucast (SQUASHFS_INODE_BLK inode) + inode_table_start s"

definition reg_record :: "super_block \<Rightarrow> squashfs_fs \<Rightarrow> 64 word \<Rightarrow> squashfs_reg_inode" where
  "reg_record s fs inode = as_reg fs (fst (snd (read_at s inode (sizeof_reg fs))))"

definition lreg_record :: "super_block \<Rightarrow> squashfs_fs \<Rightarrow> 64 word \<Rightarrow> squashfs_lreg_inode" where
  "lreg_record s fs inode = as_lreg fs (fst (snd (read_at s inode (sizeof_lreg fs))))"

definition with_events :: "event list \<Rightarrow> outcome \<Rightarrow> outcome" where
  "with_events pre r = (fst r, fst (snd r), pre @ snd (snd r))"

text \<open>The header read did not fail, and both id lookups returned 0.\<close>

definition header_read_ok :: "super_block \<Rightarrow> squashfs_fs \<Rightarrow> 64 word \<Rightarrow> bool" where
  "header_read_ok s fs inode = (0 \<le> fst (read_at s inode (sizeof_base fs)))"

definition uid_error :: "super_block \<Rightarrow> squashfs_fs \<Rightarrow> 64 word \<Rightarrow> int" where
  "uid_error s fs inode = fst (squashfs_get_id s (le16_to_cpu (big_endian s) (base_uid (header s fs inode))))"

definition gid_error :: "super_block \<Rightarrow> squashfs_fs \<Rightarrow> 64 word \<Rightarrow> int" where
  "gid_error s fs inode = fst (squashfs_get_id s (le16_to_cpu (big_endian s) (base_guid (header s fs inode))))"

definition ids_resolve :: "super_block \<Rightarrow> squashfs_fs \<Rightarrow> 64 word \<Rightarrow> bool" where
  "ids_resolve s fs inode = (uid_error s fs inode = 0 \<and> gid_error s fs inode = 0)"

text \<open>The nine discriminants that have a \<^verbatim>\<open>case\<close> label in the \<^verbatim>\<open>switch\<close>.\<close>

definition known_type :: "int \<Rightarrow> bool" where
  "known_type t = (1 \<le> t \<and> t \<le> 9)"

text \<open>
  The failure through the \<^verbatim>\<open>default\<close> label: \<^verbatim>\<open>-EINVAL\<close> together with the message
  "Unknown inode type". (The other failures print "Unable to read inode".)
\<close>

fun is_unknown_inode_type :: "event \<Rightarrow> bool" where
  "is_unknown_inode_type (ERROR_unknown_inode_type t) = True"
| "is_unknown_inode_type _ = False"

definition unknown_inode_type_error :: "outcome \<Rightarrow> bool" where
  "unknown_inode_type_error r =
     (fst r = - EINVAL \<and> list_ex is_unknown_inode_type (snd (snd r)))"

fun is_read :: "event \<Rightarrow> bool" where
  "is_read (Read_metadata block offset n) = True"
| "is_read _ = False"

fun is_fragment_lookup :: "event \<Rightarrow> bool" where
  "is_fragment_lookup (Get_fragment_location frag) = True"
| "is_fragment_lookup _ = False"

text \<open>The file type bits that the \<^verbatim>\<open>case\<close> of a discriminant ORs into the mode.\<close>

definition file_type_bits :: "int \<Rightarrow> 16 word" where
  "file_type_bits t =
     (if t = SQUASHFS_FILE_TYPE \<or> t = SQUASHFS_LREG_TYPE then S_IFREG
      else if t = SQUASHFS_DIR_TYPE \<or> t = SQUASHFS_LDIR_TYPE then S_IFDIR
      else if t = SQUASHFS_SYMLINK_TYPE then S_IFLNK
      else if t = SQUASHFS_CHRDEV_TYPE then S_IFCHR
      else if t = SQUASHFS_BLKDEV_TYPE then S_IFBLK
      else if t = SQUASHFS_FIFO_TYPE then S_IFIFO
      else if t = SQUASHFS_SOCKET_TYPE then S_IFSOCK
      else 0)"

text \<open>The \<^verbatim>\<open>sizeof\<close> of the structure that the \<^verbatim>\<open>case\<close> of a discriminant reads.\<close>

definition sizeof_record :: "squashfs_fs \<Rightarrow> int \<Rightarrow> nat" where
  "sizeof_record fs t =
     (if t = SQUASHFS_FILE_TYPE then sizeof_reg fs
      else if t = SQUASHFS_LREG_TYPE then sizeof_lreg fs
      else if t = SQUASHFS_DIR_TYPE then sizeof_dir fs
      else if t = SQUASHFS_LDIR_TYPE then sizeof_ldir fs
      else if t = SQUASHFS_SYMLINK_TYPE then sizeof_symlink fs
      else if t = SQUASHFS_BLKDEV_TYPE \<or> t = SQUASHFS_CHRDEV_TYPE then sizeof_dev fs
      else sizeof_ipc fs)"

section \<open>An example file system\<close>

text \<open>
  Concrete inputs on which the definitions above are run. The example format lays the
  fields of each structure out in the order of the records above, little-endian, after
  the 16-byte base inode; a buffer shorter than the structure reads as if padded with
  zero bytes. \<open>field buf k n\<close> is what the host reads from the \<open>n\<close> bytes at offset \<open>k\<close>:
  \<open>le_bytes\<close> on a little-endian host (\<open>example_fs\<close>), \<open>be_bytes\<close> on a big-endian one
  (\<open>example_fs_be\<close>).
\<close>

definition le_bytes :: "8 word list \<Rightarrow> nat \<Rightarrow> nat \<Rightarrow> nat" where
  "le_bytes buf k n = foldr (\<lambda>b acc. unat b + 256 * acc) (take n (drop k buf)) 0"

definition be_bytes :: "8 word list \<Rightarrow> nat \<Rightarrow> nat \<Rightarrow> nat" where
  "be_bytes buf k n = foldl (\<lambda>acc b. 256 * acc + unat b) 0 (take n (drop k buf))"

definition example_format :: "(8 word list \<Rightarrow> nat \<Rightarrow> nat \<Rightarrow> nat) \<Rightarrow> squashfs_fs" where
  "example_format field =
     \<lparr>sizeof_base = 16,
      as_base = (\<lambda>buf.
        \<lparr>base_inode_type = of_nat (field buf 0 2), base_mode = of_nat (field buf 2 2),
         base_uid = of_nat (field buf 4 2), base_guid = of_nat (field buf 6 2),
         base_mtime = of_nat (field buf 8 4),
         base_inode_number = of_nat (field buf 12 4)\<rparr>),
      sizeof_reg = 32,
      as_reg = (\<lambda>buf.
        \<lparr>reg_start_block = of_nat (field buf 16 4),
         reg_fragment = of_nat (field buf 20 4),
         reg_offset = of_nat (field buf 24 4),
         reg_file_size = of_nat (field buf 28 4)\<rparr>),
      sizeof_lreg = 52,
      as_lreg = (\<lambda>buf.
        \<lparr>lreg_start_block = of_nat (field buf 16 8),
         lreg_file_size = of_nat (field buf 24 8),
         lreg_sparse = of_nat (field buf 32 8),
         lreg_nlink = of_nat (field buf 40 4),
         lreg_fragment = of_nat (field buf 44 4),
         lreg_offset = of_nat (field buf 48 4)\<rparr>),
      sizeof_dir = 32,
      as_dir = (\<lambda>buf.
        \<lparr>dir_start_block = of_nat (field buf 16 4),
         dir_nlink = of_nat (field buf 20 4),
         dir_file_size = of_nat (field buf 24 2),
         dir_offset = of_nat (field buf 26 2),
         dir_parent_inode = of_nat (field buf 28 4)\<rparr>),
      sizeof_ldir = 36,
      as_ldir = (\<lambda>buf.
        \<lparr>ldir_nlink = of_nat (field buf 16 4),
         ldir_file_size = of_nat (field buf 20 4),
         ldir_start_block = of_nat (field buf 24 4),
         ldir_parent_inode = of_nat (field buf 28 4),
         ldir_i_count = of_nat (field buf 32 2),
         ldir_offset = of_nat (field buf 34 2)\<rparr>),
      sizeof_symlink = 24,
      as_symlink = (\<lambda>buf.
        \<lparr>symlink_nlink = of_nat (field buf 16 4),
         symlink_symlink_size = of_nat (field buf 20 4)\<rparr>),
      sizeof_dev = 24,
      as_dev = (\<lambda>buf.
        \<lparr>dev_nlink = of_nat (field buf 16 4), dev_rdev = of_nat (field buf 20 4)\<rparr>),
      sizeof_ipc = 20,
      as_ipc = (\<lambda>buf. \<lparr>ipc_nlink = of_nat (field buf 16 4)\<rparr>),
      SQUASHFS_INVALID_BLK = - 1\<rparr>"

definition example_fs :: squashfs_fs where
  "example_fs = example_format le_bytes"

definition example_fs_be :: squashfs_fs where
  "example_fs_be = example_format be_bytes"

definition empty_inode :: inode where
  "empty_inode =
     \<lparr>i_ino = 0, i_mode = 0, i_uid = 0, i_gid = 0, i_nlink = 0, i_size = 0, i_blocks = 0,
      i_mtime_tv_sec = 0, i_atime_tv_sec = 0, i_ctime_tv_sec = 0, i_rdev = 0,
      i_op = None, i_fop = None, i_data_a_ops = None,
      sq_start_block = 0, sq_block_list_start = 0, sq_offset = 0,
      sq_fragment_block = 0, sq_fragment_size = 0, sq_fragment_offset = 0,
      sq_dir_index_start = 0, sq_dir_index_offset = 0, sq_dir_index_count = 0,
      sq_parent_inode = 0\<rparr>"

text \<open>
  A super block on a little-endian host over one uncompressed metadata block \<open>img\<close>,
  with the inode table at
  block 0: a read inside the image returns its length and the bytes, a read beyond its
  end fails with \<^verbatim>\<open>-EIO\<close>. The id table has two entries, 1000 and 1001; an index beyond
  it fails with \<^verbatim>\<open>-ERANGE\<close>. Every fragment is 512 bytes long, fragment \<open>n\<close> at block
  \<open>8192 + n\<close>. Every inode number is new to the inode cache.
\<close>

definition example_sb :: "8 word list \<Rightarrow> super_block" where
  "example_sb img =
     \<lparr>big_endian = False,
      inode_table_start = 0,
      squashfs_read_metadata = (\<lambda>block offset n.
        if unat block + unat offset + n \<le> length img
        then (int n, take n (drop (unat block + unat offset) img), block, offset + of_nat n)
        else (- 5, [], block, offset)),
      squashfs_get_id = (\<lambda>index. if index < 2 then (0, 1000 + ucast index) else (- 34, 0)),
      get_fragment_location = (\<lambda>fragment. (512, 8192 + ucast fragment)),
      iget_locked = (\<lambda>inode_number. New empty_inode)\<rparr>"

text \<open>The same super block on a big-endian host.\<close>

definition example_sb_be :: "8 word list \<Rightarrow> super_block" where
  "example_sb_be img = (example_sb img)\<lparr>big_endian := True\<rparr>"

text \<open>
  A basic directory: mode 0755, owner and group index 0, mtime 1700000000, inode number
  42, start_block 0x1000, nlink 2, file_size 64, offset 16, parent inode 1.
\<close>

definition image_dir :: "8 word list" where
  "image_dir =
    [1, 0, 237, 1, 0, 0, 0, 0, 0, 241, 83, 101, 42, 0, 0, 0, 0, 16, 0, 0, 2, 0, 0, 0,
     64, 0, 16, 0, 1, 0, 0, 0]"

text \<open>
  A basic regular file of 1000 bytes, start_block 96, with no fragment (the fragment
  offset field holds 5).
\<close>

definition image_file :: "8 word list" where
  "image_file =
    [2, 0, 164, 1, 0, 0, 1, 0, 0, 241, 83, 101, 7, 0, 0, 0, 96, 0, 0, 0, 255, 255, 255,
     255, 5, 0, 0, 0, 232, 3, 0, 0]"

text \<open>The same file with its tail in fragment 3 at offset 40.\<close>

definition image_file_frag :: "8 word list" where
  "image_file_frag =
    [2, 0, 164, 1, 0, 0, 1, 0, 0, 241, 83, 101, 8, 0, 0, 0, 96, 0, 0, 0, 3, 0, 0, 0,
     40, 0, 0, 0, 232, 3, 0, 0]"

text \<open>An extended regular file: file_size 10240, sparse 2048, nlink 2, no fragment.\<close>

definition image_lreg :: "8 word list" where
  "image_lreg =
    [9, 0, 128, 1, 1, 0, 1, 0, 0, 241, 83, 101, 9, 0, 0, 0, 0, 16, 0, 0, 0, 0, 0, 0, 0,
     40, 0, 0, 0, 0, 0, 0, 0, 8, 0, 0, 0, 0, 0, 0, 2, 0, 0, 0, 255, 255, 255, 255, 0,
     0, 0, 0]"

text \<open>
  An empty extended regular file with two links: file_size 0, sparse 0, nlink 2, no
  fragment.
\<close>

definition image_lreg_empty :: "8 word list" where
  "image_lreg_empty =
    [9, 0, 128, 1, 1, 0, 1, 0, 0, 241, 83, 101, 10, 0, 0, 0, 0, 0, 0, 0, 0, 0, 0, 0, 0,
     0, 0, 0, 0, 0, 0, 0, 0, 0, 0, 0, 0, 0, 0, 0, 2, 0, 0, 0, 255, 255, 255, 255, 0, 0,
     0, 0]"

text \<open>A symlink with stored mode 0644, nlink 1 and a target of 9 bytes.\<close>

definition image_symlink :: "8 word list" where
  "image_symlink =
    [3, 0, 164, 1, 0, 0, 0, 0, 0, 241, 83, 101, 11, 0, 0, 0, 1, 0, 0, 0, 9, 0, 0, 0]"

text \<open>A character device, nlink 1, rdev 0x0501.\<close>

definition image_chrdev :: "8 word list" where
  "image_chrdev =
    [5, 0, 144, 1, 0, 0, 1, 0, 0, 241, 83, 101, 12, 0, 0, 0, 1, 0, 0, 0, 1, 5, 0, 0]"

text \<open>A fifo, nlink 1.\<close>

definition image_fifo :: "8 word list" where
  "image_fifo =
    [6, 0, 128, 1, 0, 0, 0, 0, 0, 241, 83, 101, 13, 0, 0, 0, 1, 0, 0, 0]"

text \<open>A header with discriminant 10 (extended symlink in the format description).\<close>

definition image_lsymlink :: "8 word list" where
  "image_lsymlink =
    [10, 0, 255, 1, 0, 0, 0, 0, 0, 241, 83, 101, 14, 0, 0, 0, 1, 0, 0, 0, 9, 0, 0, 0]"

text \<open>A header with discriminant 99.\<close>

definition image_type99 :: "8 word list" where
  "image_type99 =
    [99, 0, 164, 1, 0, 0, 0, 0, 0, 241, 83, 101, 15, 0, 0, 0, 0, 0, 0, 0, 0, 0, 0, 0,
     0, 0, 0, 0, 0, 0, 0, 0]"

text \<open>
  A header with discriminant 99 and owner index 7, which the example id table does not
  hold.
\<close>

definition image_type99_bad_uid :: "8 word list" where
  "image_type99_bad_uid =
    [99, 0, 164, 1, 7, 0, 0, 0, 0, 241, 83, 101, 16, 0, 0, 0, 0, 0, 0, 0, 0, 0, 0, 0,
     0, 0, 0, 0, 0, 0, 0, 0]"

text \<open>
  A basic regular file with group index 7, which the example id table does not hold.
\<close>

definition image_file_bad_gid :: "8 word list" where
  "image_file_bad_gid =
    [2, 0, 164, 1, 0, 0, 7, 0, 0, 241, 83, 101, 17, 0, 0, 0, 96, 0, 0, 0, 3, 0, 0, 0,
     40, 0, 0, 0, 232, 3, 0, 0]"

section \<open>Properties\<close>

lemma INODE_BLK_compose:
  assumes "offset < 2 ^ 16"
  shows "SQUASHFS_INODE_BLK (compose block offset) = block"
proof (rule bit_word_eqI)
  fix n assume n: "n < LENGTH(32)"
  have off: "\<not> bit offset (16 + n)"
    using assms
    by (metis add.commute bit_take_bit_iff less_mask_eq not_add_less1 take_bit_eq_mask)
  show "bit (SQUASHFS_INODE_BLK (compose block offset)) n = bit block n"
    using n off
    by (auto simp: SQUASHFS_INODE_BLK_def compose_def bit_simps)
qed

lemma INODE_OFFSET_compose:
  assumes "offset < 2 ^ 16"
  shows "SQUASHFS_INODE_OFFSET (compose block offset) = offset"
proof (rule bit_word_eqI)
  fix n assume n: "n < LENGTH(32)"
  have m: "(0xffff :: 64 word) = mask 16"
    by (simp add: mask_eq_exp_minus_1)
  have off: "bit offset n \<Longrightarrow> n < 16"
    using assms by (metis bit_take_bit_iff less_mask_eq take_bit_eq_mask)
  show "bit (SQUASHFS_INODE_OFFSET (compose block offset)) n = bit offset n"
    using n off
    by (auto simp: SQUASHFS_INODE_OFFSET_def compose_def m bit_simps)
qed

text \<open>
  C2. Decomposing the locator composed from a block and an offset gives the block and
  the offset back, for every block of the 32 bits above the offset field and every
  offset that fits the 16-bit offset field.
\<close>

theorem locator_round_trip:
  "offset < 2 ^ 16 \<Longrightarrow> decompose (compose block offset) = (block, offset)"
  by (simp add: decompose_def INODE_BLK_compose INODE_OFFSET_compose)

theorem locator_round_trip_witness:
  "(16 :: 32 word) < 2 ^ 16 \<and> decompose (compose 0x1000 16) = (0x1000, 16)"
  using locator_round_trip [of 16 "0x1000"] by simp

subsection \<open>The steps of squashfs_read_inode\<close>

lemma new_inode_err:
  "fst (squashfs_new_inode s i (header s fs inode)) =
     (if uid_error s fs inode \<noteq> 0 then uid_error s fs inode else gid_error s fs inode)"
  by (simp add: squashfs_new_inode_def uid_error_def gid_error_def case_prod_beta)

lemma new_inode_events:
  "snd (snd (squashfs_new_inode s i (header s fs inode))) =
     Get_id (le16_to_cpu (big_endian s) (base_uid (header s fs inode))) #
       (if uid_error s fs inode \<noteq> 0 then []
        else [Get_id (le16_to_cpu (big_endian s) (base_guid (header s fs inode)))])"
  by (simp add: squashfs_new_inode_def uid_error_def gid_error_def case_prod_beta)

lemma new_inode_ok_iff:
  "fst (squashfs_new_inode s i (header s fs inode)) = 0 \<longleftrightarrow> ids_resolve s fs inode"
  by (auto simp: new_inode_err ids_resolve_def)

lemma new_inode_mode_size:
  "ids_resolve s fs inode \<Longrightarrow>
   i_mode (fst (snd (squashfs_new_inode s i (header s fs inode)))) =
     le16_to_cpu (big_endian s) (base_mode (header s fs inode)) \<and>
   i_size (fst (snd (squashfs_new_inode s i (header s fs inode)))) = 0"
  by (simp add: squashfs_new_inode_def ids_resolve_def uid_error_def gid_error_def
      case_prod_beta)

lemma read_inode_header_failed:
  "\<not> header_read_ok s fs inode \<Longrightarrow>
   squashfs_read_inode s fs i inode =
     (fst (read_at s inode (sizeof_base fs)), i,
      [Read_metadata (ucast (SQUASHFS_INODE_BLK inode) + inode_table_start s)
         (SQUASHFS_INODE_OFFSET inode) (sizeof_base fs),
       ERROR_unable_to_read_inode inode])"
  by (simp add: squashfs_read_inode_def header_read_ok_def read_at_def failed_read_def
      Let_def case_prod_beta)

lemma read_inode_ids_failed:
  "header_read_ok s fs inode \<Longrightarrow> \<not> ids_resolve s fs inode \<Longrightarrow>
   squashfs_read_inode s fs i inode =
     (fst (squashfs_new_inode s i (header s fs inode)),
      fst (snd (squashfs_new_inode s i (header s fs inode))),
      Read_metadata (ucast (SQUASHFS_INODE_BLK inode) + inode_table_start s)
         (SQUASHFS_INODE_OFFSET inode) (sizeof_base fs) #
      snd (snd (squashfs_new_inode s i (header s fs inode))) @
      [ERROR_unable_to_read_inode inode])"
  using new_inode_ok_iff [of s i fs inode]
  by (simp add: squashfs_read_inode_def header_read_ok_def read_at_def failed_read_def
      header_def Let_def case_prod_beta)

lemma read_inode_switch:
  "header_read_ok s fs inode \<Longrightarrow> ids_resolve s fs inode \<Longrightarrow>
   squashfs_read_inode s fs i inode =
     (case switch_type s fs (fst (snd (squashfs_new_inode s i (header s fs inode)))) inode
        (header_type s fs inode)
        (ucast (SQUASHFS_INODE_BLK inode) + inode_table_start s)
        (SQUASHFS_INODE_OFFSET inode) of
      (err, i', tr') \<Rightarrow>
        (err, i',
         Read_metadata (ucast (SQUASHFS_INODE_BLK inode) + inode_table_start s)
           (SQUASHFS_INODE_OFFSET inode) (sizeof_base fs) #
         snd (snd (squashfs_new_inode s i (header s fs inode))) @ tr'))"
  using new_inode_ok_iff [of s i fs inode]
  by (simp add: squashfs_read_inode_def header_read_ok_def read_at_def failed_read_def
      header_def header_type_def Let_def case_prod_beta)

subsection \<open>The cases of the switch\<close>

lemma fragment_lookup_eq:
  "fragment_lookup s fs frag off =
     (if frag \<noteq> SQUASHFS_INVALID_FRAG
      then (Inr (snd (get_fragment_location s frag),
                 word_of_int (fst (get_fragment_location s frag)), le32_to_cpu (big_endian s) off),
            [Get_fragment_location frag])
      else (Inr (SQUASHFS_INVALID_BLK fs, 0, 0), []))"
  by (simp add: fragment_lookup_def case_prod_beta Let_def)

lemmas read_case_defs =
  read_FILE_TYPE_def read_LREG_TYPE_def read_DIR_TYPE_def read_LDIR_TYPE_def
  read_SYMLINK_TYPE_def read_DEV_TYPE_def read_IPC_TYPE_def

lemma known_type_cases:
  "known_type t \<longleftrightarrow> t = 1 \<or> t = 2 \<or> t = 3 \<or> t = 4 \<or> t = 5 \<or> t = 6 \<or> t = 7 \<or> t = 8 \<or> t = 9"
  unfolding known_type_def by presburger

lemma switch_type_unknown:
  "\<not> known_type t \<Longrightarrow>
   switch_type s fs i inode t b ofs = (- EINVAL, i, [ERROR_unknown_inode_type t])"
  by (simp add: switch_type_def known_type_cases squashfs_types)

lemma switch_type_reads:
  assumes "known_type t"
  shows "filter is_read (snd (snd (switch_type s fs i inode t b ofs))) =
           [Read_metadata b ofs (sizeof_record fs t)]"
  using assms unfolding known_type_cases
  by (elim disjE)
    (simp_all add: switch_type_def sizeof_record_def squashfs_types read_case_defs
      fragment_lookup_eq failed_read_def case_prod_beta Let_def)

lemma switch_type_no_unknown:
  assumes "known_type t"
  shows "\<not> list_ex is_unknown_inode_type (snd (snd (switch_type s fs i inode t b ofs)))"
  using assms unfolding known_type_cases
  by (elim disjE)
    (simp_all add: switch_type_def squashfs_types read_case_defs
      fragment_lookup_eq failed_read_def case_prod_beta Let_def)

text \<open>
  The cases of files, directories and symlinks OR the type bits into the mode. The
  device and ipc cases then pass \<^verbatim>\<open>le16_to_cpu(i->i_mode)\<close> to \<^verbatim>\<open>init_special_inode\<close>,
  which stores it as the mode: a second conversion of a mode that is in host order
  already.
\<close>

lemma switch_type_mode:
  assumes "fst (switch_type s fs i inode t b ofs) = 0"
    and "\<not> big_endian s \<or> t = SQUASHFS_FILE_TYPE \<or> t = SQUASHFS_LREG_TYPE
         \<or> t = SQUASHFS_DIR_TYPE \<or> t = SQUASHFS_LDIR_TYPE \<or> t = SQUASHFS_SYMLINK_TYPE"
  shows "i_mode (fst (snd (switch_type s fs i inode t b ofs))) = i_mode i OR file_type_bits t"
proof (cases "known_type t")
  case False
  with assms show ?thesis by (simp add: switch_type_unknown EINVAL_def)
next
  case True
  then show ?thesis
    using assms unfolding known_type_cases
    by (elim disjE)
      (simp_all add: switch_type_def file_type_bits_def squashfs_types read_case_defs
        fragment_lookup_eq failed_read_def case_prod_beta Let_def init_special_inode_def
        le16_to_cpu_def split: if_splits)
qed

lemma switch_type_special_mode:
  assumes "fst (switch_type s fs i inode t b ofs) = 0"
    and "t = SQUASHFS_BLKDEV_TYPE \<or> t = SQUASHFS_CHRDEV_TYPE \<or> t = SQUASHFS_FIFO_TYPE
         \<or> t = SQUASHFS_SOCKET_TYPE"
  shows "i_mode (fst (snd (switch_type s fs i inode t b ofs))) =
           le16_to_cpu (big_endian s) (i_mode i OR file_type_bits t)"
  using assms
  by (elim disjE)
    (simp_all add: switch_type_def file_type_bits_def squashfs_types read_case_defs
        failed_read_def case_prod_beta Let_def init_special_inode_def split: if_splits)

lemma switch_type_dev_size:
  assumes "fst (switch_type s fs i inode t b ofs) = 0"
    and "t = SQUASHFS_BLKDEV_TYPE \<or> t = SQUASHFS_CHRDEV_TYPE \<or> t = SQUASHFS_FIFO_TYPE
         \<or> t = SQUASHFS_SOCKET_TYPE"
  shows "i_size (fst (snd (switch_type s fs i inode t b ofs))) = i_size i"
  using assms
  by (elim disjE)
    (simp_all add: switch_type_def squashfs_types read_case_defs
        failed_read_def case_prod_beta Let_def init_special_inode_def split: if_splits)

lemma switch_type_file_nlink:
  assumes "fst (switch_type s fs i inode SQUASHFS_FILE_TYPE b ofs) = 0"
  shows "i_nlink (fst (snd (switch_type s fs i inode SQUASHFS_FILE_TYPE b ofs))) = 1"
  using assms
  by (simp add: switch_type_def squashfs_types read_case_defs fragment_lookup_eq
        failed_read_def case_prod_beta Let_def split: if_splits)

lemma success_imp:
  assumes "fst (squashfs_read_inode s fs i inode) = 0"
  shows "header_read_ok s fs inode \<and> ids_resolve s fs inode"
proof -
  have h: "header_read_ok s fs inode"
  proof (rule ccontr)
    assume n: "\<not> header_read_ok s fs inode"
    from read_inode_header_failed [OF n, of i] assms n show False
      by (simp add: header_read_ok_def)
  qed
  have "ids_resolve s fs inode"
  proof (rule ccontr)
    assume n: "\<not> ids_resolve s fs inode"
    from read_inode_ids_failed [OF h n, of i] assms new_inode_ok_iff [of s i fs inode] n
    show False by simp
  qed
  with h show ?thesis by simp
qed

lemma success_switch:
  assumes "fst (squashfs_read_inode s fs i inode) = 0"
  shows "fst (switch_type s fs (fst (snd (squashfs_new_inode s i (header s fs inode)))) inode
            (header_type s fs inode) (ucast (SQUASHFS_INODE_BLK inode) + inode_table_start s)
            (SQUASHFS_INODE_OFFSET inode)) = 0
         \<and> fst (snd (squashfs_read_inode s fs i inode)) =
           fst (snd (switch_type s fs (fst (snd (squashfs_new_inode s i (header s fs inode))))
             inode (header_type s fs inode)
             (ucast (SQUASHFS_INODE_BLK inode) + inode_table_start s)
             (SQUASHFS_INODE_OFFSET inode)))"
  using assms success_imp [OF assms] read_inode_switch [of s fs inode i]
  by (simp add: case_prod_beta)

subsection \<open>Claims about the decoded inode\<close>

text \<open>
  C6. Every successful decode of a basic regular-file record (discriminant
  \<^verbatim>\<open>SQUASHFS_FILE_TYPE\<close>) returns an inode with link count 1, whatever else the record
  holds.
\<close>

theorem basic_file_nlink:
  assumes "fst (squashfs_read_inode s fs i inode) = 0"
    and "header_type s fs inode = SQUASHFS_FILE_TYPE"
  shows "i_nlink (fst (snd (squashfs_read_inode s fs i inode))) = 1"
  using success_switch [OF assms(1)] assms(2) switch_type_file_nlink by simp

lemma file_type_bits_perm: "file_type_bits t AND 0xFFF = 0"
  by (simp add: file_type_bits_def stat_bits)

text \<open>
  On a little-endian host, and on every host for files, directories and symlinks, the
  mode after a successful decode is the stored mode ORed with the file type bits of the
  discriminant, and the twelve permission bits are the stored ones; a symlink with
  stored mode 0644 (0x1A4) gets mode 0120644 (0xA1A4).
\<close>

lemma mode_type_bits:
  assumes "fst (squashfs_read_inode s fs i inode) = 0"
    and "\<not> big_endian s
         \<or> header_type s fs inode = SQUASHFS_FILE_TYPE
         \<or> header_type s fs inode = SQUASHFS_LREG_TYPE
         \<or> header_type s fs inode = SQUASHFS_DIR_TYPE
         \<or> header_type s fs inode = SQUASHFS_LDIR_TYPE
         \<or> header_type s fs inode = SQUASHFS_SYMLINK_TYPE"
  shows "i_mode (fst (snd (squashfs_read_inode s fs i inode))) =
           le16_to_cpu (big_endian s) (base_mode (header s fs inode))
             OR file_type_bits (header_type s fs inode)
         \<and> i_mode (fst (snd (squashfs_read_inode s fs i inode))) AND 0xFFF =
           le16_to_cpu (big_endian s) (base_mode (header s fs inode)) AND 0xFFF
         \<and> (header_type s fs inode = SQUASHFS_SYMLINK_TYPE
              \<and> le16_to_cpu (big_endian s) (base_mode (header s fs inode)) = 0x1A4 \<longrightarrow>
            i_mode (fst (snd (squashfs_read_inode s fs i inode))) = 0xA1A4)"
proof -
  let ?m = "le16_to_cpu (big_endian s) (base_mode (header s fs inode))"
  let ?t = "header_type s fs inode"
  let ?r = "i_mode (fst (snd (squashfs_read_inode s fs i inode)))"
  from success_imp [OF assms(1)] have ids: "ids_resolve s fs inode" by simp
  have eq: "?r = ?m OR file_type_bits ?t"
    using success_switch [OF assms(1)] switch_type_mode [OF _ assms(2)]
      new_inode_mode_size [OF ids, of i]
    by simp
  have perm: "?r AND 0xFFF = ?m AND 0xFFF"
    by (simp add: eq bit.conj_disj_distrib2 file_type_bits_perm)
  have sym: "?t = SQUASHFS_SYMLINK_TYPE \<and> ?m = 0x1A4 \<longrightarrow> ?r = 0xA1A4"
    by (simp add: eq file_type_bits_def squashfs_types stat_bits)
  from eq perm sym show ?thesis by blast
qed

text \<open>
  For a device, fifo or socket the mode is that value converted once more: itself on a
  little-endian host, with its two bytes exchanged on a big-endian host.
\<close>

lemma special_mode:
  assumes "fst (squashfs_read_inode s fs i inode) = 0"
    and "header_type s fs inode = SQUASHFS_BLKDEV_TYPE
         \<or> header_type s fs inode = SQUASHFS_CHRDEV_TYPE
         \<or> header_type s fs inode = SQUASHFS_FIFO_TYPE
         \<or> header_type s fs inode = SQUASHFS_SOCKET_TYPE"
  shows "i_mode (fst (snd (squashfs_read_inode s fs i inode))) =
           le16_to_cpu (big_endian s)
             (le16_to_cpu (big_endian s) (base_mode (header s fs inode))
                OR file_type_bits (header_type s fs inode))"
proof -
  from success_imp [OF assms(1)] have ids: "ids_resolve s fs inode" by simp
  show ?thesis
    using success_switch [OF assms(1)] switch_type_special_mode [OF _ assms(2)]
      new_inode_mode_size [OF ids, of i]
    by simp
qed

text \<open>
  C10. Every successfully decoded block device, character device, fifo or socket inode
  has size 0: \<^verbatim>\<open>squashfs_new_inode\<close> sets it and the device and ipc cases leave it.
\<close>

theorem special_size_zero:
  assumes "fst (squashfs_read_inode s fs i inode) = 0"
    and "header_type s fs inode = SQUASHFS_BLKDEV_TYPE
         \<or> header_type s fs inode = SQUASHFS_CHRDEV_TYPE
         \<or> header_type s fs inode = SQUASHFS_FIFO_TYPE
         \<or> header_type s fs inode = SQUASHFS_SOCKET_TYPE"
  shows "i_size (fst (snd (squashfs_read_inode s fs i inode))) = 0"
proof -
  from success_imp [OF assms(1)] have ids: "ids_resolve s fs inode" by simp
  show ?thesis
    using success_switch [OF assms(1)] switch_type_dev_size [OF _ assms(2)]
      new_inode_mode_size [OF ids, of i]
    by simp
qed

text \<open>The equations that run the definitions on the example file system.\<close>

lemmas example_defs =
  squashfs_read_inode_def switch_type_def squashfs_new_inode_def squashfs_iget_def
  example_sb_def example_sb_be_def example_fs_def example_fs_be_def example_format_def
  empty_inode_def be_bytes_def
  le_bytes_def failed_read_def squashfs_types le_to_cpu SQUASHFS_INODE_BLK_def
  SQUASHFS_INODE_OFFSET_def read_case_defs fragment_lookup_def init_special_inode_def
  new_decode_dev_def stat_bits S_IFMT_def SQUASHFS_INVALID_FRAG_def EINVAL_def ENOMEM_def
  read_at_def header_def header_type_def header_read_ok_def uid_error_def gid_error_def
  ids_resolve_def known_type_def unknown_inode_type_error_def inode_block_def
  reg_record_def lreg_record_def with_events_def file_type_bits_def sizeof_record_def

theorem basic_file_nlink_witness:
  "fst (squashfs_read_inode (example_sb image_file) example_fs empty_inode 0) = 0
   \<and> header_type (example_sb image_file) example_fs 0 = SQUASHFS_FILE_TYPE
   \<and> i_nlink (fst (snd (squashfs_read_inode (example_sb image_file) example_fs empty_inode 0))) = 1"
  using basic_file_nlink [of "example_sb image_file" example_fs empty_inode 0]
  by (simp add: example_defs image_file_def)

lemma symlink_mode_example:
  "fst (squashfs_read_inode (example_sb image_symlink) example_fs empty_inode 0) = 0
   \<and> header_type (example_sb image_symlink) example_fs 0 = SQUASHFS_SYMLINK_TYPE
   \<and> le16_to_cpu False (base_mode (header (example_sb image_symlink) example_fs 0)) = 0x1A4
   \<and> i_mode (fst (snd (squashfs_read_inode (example_sb image_symlink) example_fs empty_inode 0)))
       = 0xA1A4"
  using mode_type_bits [of "example_sb image_symlink" example_fs empty_inode 0]
  by (simp add: example_defs image_symlink_def)

text \<open>
  C7. The claim gives every decoded inode the stored mode ORed with the file type bits.
  On a big-endian host the character device of the example, with stored mode 0620
  (0x0190), decodes without error; the stored mode with the character device bits is
  020620 (0x2190), and the mode returned is 0x9021, its two bytes exchanged.
\<close>

theorem chrdev_mode_big_endian:
  "big_endian (example_sb_be image_chrdev)
   \<and> fst (squashfs_read_inode (example_sb_be image_chrdev) example_fs_be empty_inode 0) = 0
   \<and> header_type (example_sb_be image_chrdev) example_fs_be 0 = SQUASHFS_CHRDEV_TYPE
   \<and> le16_to_cpu True (base_mode (header (example_sb_be image_chrdev) example_fs_be 0))
       = 0x190
   \<and> 0x190 OR file_type_bits SQUASHFS_CHRDEV_TYPE = 0x2190
   \<and> i_mode (fst (snd (squashfs_read_inode (example_sb_be image_chrdev) example_fs_be
         empty_inode 0))) = 0x9021"
  by (simp add: example_defs image_chrdev_def)

text \<open>The same device on the little-endian host gets 0x2190.\<close>

lemma chrdev_mode_little_endian:
  "i_mode (fst (snd (squashfs_read_inode (example_sb image_chrdev) example_fs
      empty_inode 0))) = 0x2190"
  by (simp add: example_defs image_chrdev_def)

theorem special_size_zero_witness:
  "fst (squashfs_read_inode (example_sb image_chrdev) example_fs empty_inode 0) = 0
   \<and> header_type (example_sb image_chrdev) example_fs 0 = SQUASHFS_CHRDEV_TYPE
   \<and> i_size (fst (snd (squashfs_read_inode (example_sb image_chrdev) example_fs empty_inode 0))) = 0"
  using special_size_zero [of "example_sb image_chrdev" example_fs empty_inode 0]
  by (simp add: example_defs image_chrdev_def)

subsection \<open>Claims about failures\<close>

text \<open>
  C8. When the header has been read and the lookup of the owner index or of the group
  index fails, \<^verbatim>\<open>squashfs_read_inode\<close> returns the error code of the failed lookup after
  the header read and the lookups only: no second read and no fragment lookup. The owner
  lookup comes first, and the group lookup is not made when it fails.
  \<^verbatim>\<open>squashfs_iget\<close> then returns \<^verbatim>\<open>ERR_PTR\<close> of that code, not the inode.
\<close>

theorem identity_failure:
  assumes "header_read_ok s fs inode" and "\<not> ids_resolve s fs inode"
  shows "fst (squashfs_read_inode s fs i inode) =
           (if uid_error s fs inode \<noteq> 0 then uid_error s fs inode else gid_error s fs inode)
         \<and> fst (squashfs_read_inode s fs i inode) \<noteq> 0
         \<and> snd (snd (squashfs_read_inode s fs i inode)) =
             Read_metadata (inode_block s inode) (SQUASHFS_INODE_OFFSET inode) (sizeof_base fs) #
             Get_id (le16_to_cpu (big_endian s) (base_uid (header s fs inode))) #
             (if uid_error s fs inode \<noteq> 0 then []
              else [Get_id (le16_to_cpu (big_endian s) (base_guid (header s fs inode)))]) @
             [ERROR_unable_to_read_inode inode]
         \<and> filter is_read (snd (snd (squashfs_read_inode s fs i inode))) =
             [Read_metadata (inode_block s inode) (SQUASHFS_INODE_OFFSET inode) (sizeof_base fs)]
         \<and> \<not> list_ex is_fragment_lookup (snd (snd (squashfs_read_inode s fs i inode)))
         \<and> (iget_locked s inode_number = New i \<longrightarrow>
              fst (squashfs_iget s fs inode inode_number) =
                Inl (if uid_error s fs inode \<noteq> 0 then uid_error s fs inode
                     else gid_error s fs inode))"
proof -
  let ?R = "squashfs_read_inode s fs i inode"
  let ?e = "if uid_error s fs inode \<noteq> 0 then uid_error s fs inode else gid_error s fs inode"
  have e: "?e \<noteq> 0"
    using assms(2) by (simp add: ids_resolve_def)
  have R: "?R = (?e, fst (snd (squashfs_new_inode s i (header s fs inode))),
      Read_metadata (inode_block s inode) (SQUASHFS_INODE_OFFSET inode) (sizeof_base fs) #
      Get_id (le16_to_cpu (big_endian s) (base_uid (header s fs inode))) #
      (if uid_error s fs inode \<noteq> 0 then []
       else [Get_id (le16_to_cpu (big_endian s) (base_guid (header s fs inode)))]) @
      [ERROR_unable_to_read_inode inode])"
    by (simp add: read_inode_ids_failed [OF assms] new_inode_err new_inode_events
        inode_block_def)
  have iget: "iget_locked s inode_number = New i \<longrightarrow>
      fst (squashfs_iget s fs inode inode_number) = Inl ?e"
    using e by (simp add: squashfs_iget_def R)
  show ?thesis
    using e iget by (simp add: R)
qed

theorem identity_failure_witness:
  "header_read_ok (example_sb image_file_bad_gid) example_fs 0
   \<and> \<not> ids_resolve (example_sb image_file_bad_gid) example_fs 0
   \<and> squashfs_read_inode (example_sb image_file_bad_gid) example_fs empty_inode 0 =
       (- 34, empty_inode\<lparr>i_uid := 1000\<rparr>,
        [Read_metadata 0 0 16, Get_id 0, Get_id 7, ERROR_unable_to_read_inode 0])
   \<and> iget_locked (example_sb image_file_bad_gid) 17 = New empty_inode
   \<and> squashfs_iget (example_sb image_file_bad_gid) example_fs 0 17 =
       (Inl (- 34), [Read_metadata 0 0 16, Get_id 0, Get_id 7, ERROR_unable_to_read_inode 0])"
  using identity_failure [where s = "example_sb image_file_bad_gid" and fs = example_fs
      and inode = 0 and i = empty_inode and inode_number = 17]
  by (simp add: example_defs image_file_bad_gid_def)


text \<open>
  C5, as amended. When the header has been read, both id lookups have succeeded and the
  discriminant is none of the nine that the \<^verbatim>\<open>switch\<close> names (99, for one),
  \<^verbatim>\<open>squashfs_read_inode\<close> fails with \<^verbatim>\<open>-EINVAL\<close> and the message "Unknown inode type";
  the header read is its only read, and \<^verbatim>\<open>squashfs_iget\<close> returns \<^verbatim>\<open>ERR_PTR(-EINVAL)\<close>,
  not the inode.
\<close>

theorem unknown_type_rejected:
  assumes "header_read_ok s fs inode" and "ids_resolve s fs inode"
    and "\<not> known_type (header_type s fs inode)"
  shows "fst (squashfs_read_inode s fs i inode) = - EINVAL
         \<and> unknown_inode_type_error (squashfs_read_inode s fs i inode)
         \<and> snd (snd (squashfs_read_inode s fs i inode)) =
             [Read_metadata (inode_block s inode) (SQUASHFS_INODE_OFFSET inode) (sizeof_base fs),
              Get_id (le16_to_cpu (big_endian s) (base_uid (header s fs inode))),
              Get_id (le16_to_cpu (big_endian s) (base_guid (header s fs inode))),
              ERROR_unknown_inode_type (header_type s fs inode)]
         \<and> (iget_locked s inode_number = New i \<longrightarrow>
              fst (squashfs_iget s fs inode inode_number) = Inl (- EINVAL))"
proof -
  have u: "uid_error s fs inode = 0"
    using assms(2) by (simp add: ids_resolve_def)
  have R: "squashfs_read_inode s fs i inode =
      (- EINVAL, fst (snd (squashfs_new_inode s i (header s fs inode))),
       [Read_metadata (inode_block s inode) (SQUASHFS_INODE_OFFSET inode) (sizeof_base fs),
        Get_id (le16_to_cpu (big_endian s) (base_uid (header s fs inode))),
        Get_id (le16_to_cpu (big_endian s) (base_guid (header s fs inode))),
        ERROR_unknown_inode_type (header_type s fs inode)])"
    by (simp add: read_inode_switch [OF assms(1,2)] switch_type_unknown [OF assms(3)]
        new_inode_events u inode_block_def)
  show ?thesis
    by (simp add: R unknown_inode_type_error_def squashfs_iget_def EINVAL_def)
qed

theorem unknown_type_rejected_witness:
  "header_read_ok (example_sb image_type99) example_fs 0
   \<and> ids_resolve (example_sb image_type99) example_fs 0
   \<and> header_type (example_sb image_type99) example_fs 0 = 99
   \<and> \<not> known_type 99
   \<and> fst (squashfs_read_inode (example_sb image_type99) example_fs empty_inode 0) = - 22
   \<and> snd (snd (squashfs_read_inode (example_sb image_type99) example_fs empty_inode 0)) =
       [Read_metadata 0 0 16, Get_id 0, Get_id 0, ERROR_unknown_inode_type 99]
   \<and> iget_locked (example_sb image_type99) 15 = New empty_inode
   \<and> fst (squashfs_iget (example_sb image_type99) example_fs 0 15) = Inl (- 22)"
  using unknown_type_rejected [where s = "example_sb image_type99" and fs = example_fs
      and inode = 0 and i = empty_inode and inode_number = 15]
  by (simp add: example_defs image_type99_def)

text \<open>
  The claim as stated fails for a header with discriminant 99 whose owner index does not
  resolve: the lookups come before the \<^verbatim>\<open>switch\<close>, and the decode ends with the error of
  the lookup.
\<close>

theorem unknown_type_identity_counterexample:
  "header_read_ok (example_sb image_type99_bad_uid) example_fs 0
   \<and> header_type (example_sb image_type99_bad_uid) example_fs 0 = 99
   \<and> \<not> unknown_inode_type_error
         (squashfs_read_inode (example_sb image_type99_bad_uid) example_fs empty_inode 0)
   \<and> squashfs_read_inode (example_sb image_type99_bad_uid) example_fs empty_inode 0 =
       (- 34, empty_inode, [Read_metadata 0 0 16, Get_id 7, ERROR_unable_to_read_inode 0])"
  by (simp add: example_defs image_type99_bad_uid_def)

lemma unknown_error_iff:
  "unknown_inode_type_error (squashfs_read_inode s fs i inode) \<longleftrightarrow>
     header_read_ok s fs inode \<and> ids_resolve s fs inode
     \<and> \<not> known_type (header_type s fs inode)"
proof (cases "header_read_ok s fs inode")
  case False
  then show ?thesis
    by (simp add: read_inode_header_failed unknown_inode_type_error_def)
next
  case h: True
  show ?thesis
  proof (cases "ids_resolve s fs inode")
    case False
    with h show ?thesis
      by (simp add: read_inode_ids_failed unknown_inode_type_error_def new_inode_events)
  next
    case ids: True
    show ?thesis
    proof (cases "known_type (header_type s fs inode)")
      case True
      with h ids switch_type_no_unknown [OF True] show ?thesis
        by (simp add: read_inode_switch unknown_inode_type_error_def new_inode_events
            case_prod_beta)
    next
      case False
      with h ids show ?thesis
        by (simp add: read_inode_switch switch_type_unknown unknown_inode_type_error_def)
    qed
  qed
qed

text \<open>
  C1, as amended. The decode fails through the \<^verbatim>\<open>default\<close> label exactly when the header
  has been read, both id lookups have succeeded and the discriminant is not one of 1 to
  9. For each of the nine values it runs the case of that type: 1 the directory, 2 the
  regular file, 3 the symlink, 4 and 5 the device, 6 and 7 the ipc, 8 the extended
  directory and 9 the extended regular file case. Every other discriminant, 10 to 14
  among them, is the unknown inode type error.
\<close>

theorem type_dispatch:
  "(unknown_inode_type_error (squashfs_read_inode s fs i inode) \<longleftrightarrow>
      header_read_ok s fs inode \<and> ids_resolve s fs inode
      \<and> \<not> (1 \<le> header_type s fs inode \<and> header_type s fs inode \<le> 9))
   \<and> (header_read_ok s fs inode \<and> ids_resolve s fs inode \<longrightarrow>
       (let t = header_type s fs inode;
            block = inode_block s inode;
            offset = SQUASHFS_INODE_OFFSET inode;
            i' = fst (snd (squashfs_new_inode s i (header s fs inode)));
            pre = [Read_metadata block offset (sizeof_base fs),
                   Get_id (le16_to_cpu (big_endian s) (base_uid (header s fs inode))),
                   Get_id (le16_to_cpu (big_endian s) (base_guid (header s fs inode)))]
        in squashfs_read_inode s fs i inode =
             with_events pre
               (if t = 1 then read_DIR_TYPE s fs i' inode block offset
                else if t = 2 then read_FILE_TYPE s fs i' inode block offset
                else if t = 3 then read_SYMLINK_TYPE s fs i' inode block offset
                else if t = 4 \<or> t = 5 then read_DEV_TYPE s fs i' inode t block offset
                else if t = 6 \<or> t = 7 then read_IPC_TYPE s fs i' inode t block offset
                else if t = 8 then read_LDIR_TYPE s fs i' inode block offset
                else if t = 9 then read_LREG_TYPE s fs i' inode block offset
                else (- EINVAL, i', [ERROR_unknown_inode_type t]))))"
proof -
  have d: "header_read_ok s fs inode \<and> ids_resolve s fs inode \<longrightarrow>
       (let t = header_type s fs inode;
            block = inode_block s inode;
            offset = SQUASHFS_INODE_OFFSET inode;
            i' = fst (snd (squashfs_new_inode s i (header s fs inode)));
            pre = [Read_metadata block offset (sizeof_base fs),
                   Get_id (le16_to_cpu (big_endian s) (base_uid (header s fs inode))),
                   Get_id (le16_to_cpu (big_endian s) (base_guid (header s fs inode)))]
        in squashfs_read_inode s fs i inode =
             with_events pre
               (if t = 1 then read_DIR_TYPE s fs i' inode block offset
                else if t = 2 then read_FILE_TYPE s fs i' inode block offset
                else if t = 3 then read_SYMLINK_TYPE s fs i' inode block offset
                else if t = 4 \<or> t = 5 then read_DEV_TYPE s fs i' inode t block offset
                else if t = 6 \<or> t = 7 then read_IPC_TYPE s fs i' inode t block offset
                else if t = 8 then read_LDIR_TYPE s fs i' inode block offset
                else if t = 9 then read_LREG_TYPE s fs i' inode block offset
                else (- EINVAL, i', [ERROR_unknown_inode_type t])))"
  proof (intro impI, elim conjE)
    assume h: "header_read_ok s fs inode" and ids: "ids_resolve s fs inode"
    have u: "uid_error s fs inode = 0"
      using ids by (simp add: ids_resolve_def)
    show "let t = header_type s fs inode;
            block = inode_block s inode;
            offset = SQUASHFS_INODE_OFFSET inode;
            i' = fst (snd (squashfs_new_inode s i (header s fs inode)));
            pre = [Read_metadata block offset (sizeof_base fs),
                   Get_id (le16_to_cpu (big_endian s) (base_uid (header s fs inode))),
                   Get_id (le16_to_cpu (big_endian s) (base_guid (header s fs inode)))]
        in squashfs_read_inode s fs i inode =
             with_events pre
               (if t = 1 then read_DIR_TYPE s fs i' inode block offset
                else if t = 2 then read_FILE_TYPE s fs i' inode block offset
                else if t = 3 then read_SYMLINK_TYPE s fs i' inode block offset
                else if t = 4 \<or> t = 5 then read_DEV_TYPE s fs i' inode t block offset
                else if t = 6 \<or> t = 7 then read_IPC_TYPE s fs i' inode t block offset
                else if t = 8 then read_LDIR_TYPE s fs i' inode block offset
                else if t = 9 then read_LREG_TYPE s fs i' inode block offset
                else (- EINVAL, i', [ERROR_unknown_inode_type t]))"
      by (simp add: read_inode_switch [OF h ids] new_inode_events u inode_block_def
          with_events_def switch_type_def squashfs_types case_prod_beta Let_def)
  qed
  from unknown_error_iff [of s fs i inode] d show ?thesis
    by (simp only: known_type_def) 
qed

theorem type_dispatch_witness:
  "header_read_ok (example_sb image_dir) example_fs 0
   \<and> ids_resolve (example_sb image_dir) example_fs 0
   \<and> header_type (example_sb image_dir) example_fs 0 = 1
   \<and> \<not> unknown_inode_type_error
         (squashfs_read_inode (example_sb image_dir) example_fs empty_inode 0)
   \<and> squashfs_read_inode (example_sb image_dir) example_fs empty_inode 0 =
       with_events [Read_metadata 0 0 16, Get_id 0, Get_id 0]
         (read_DIR_TYPE (example_sb image_dir) example_fs
            (fst (snd (squashfs_new_inode (example_sb image_dir) empty_inode
               (header (example_sb image_dir) example_fs 0)))) 0 0 0)"
proof -
  let ?s = "example_sb image_dir"
  have h: "header_read_ok ?s example_fs 0"
    and ids: "ids_resolve ?s example_fs 0"
    and t: "header_type ?s example_fs 0 = 1"
    by (simp_all add: example_defs image_dir_def)
  have p: "inode_block ?s 0 = 0" "SQUASHFS_INODE_OFFSET 0 = 0" "sizeof_base example_fs = 16"
    by (simp_all add: example_defs)
  have u: "le16_to_cpu (big_endian ?s) (base_uid (header ?s example_fs 0)) = 0"
    and g: "le16_to_cpu (big_endian ?s) (base_guid (header ?s example_fs 0)) = 0"
    by (simp_all add: example_defs image_dir_def)
  note d = type_dispatch [where s = ?s and fs = example_fs and inode = 0 and i = empty_inode]
  have a: "\<not> unknown_inode_type_error (squashfs_read_inode ?s example_fs empty_inode 0)"
    using d [THEN conjunct1] t by simp
  have b: "squashfs_read_inode ?s example_fs empty_inode 0 =
       with_events [Read_metadata 0 0 16, Get_id 0, Get_id 0]
         (read_DIR_TYPE ?s example_fs
            (fst (snd (squashfs_new_inode ?s empty_inode (header ?s example_fs 0)))) 0 0 0)"
    using d [THEN conjunct2] h ids by (simp add: t p u g Let_def)
  from h ids t a b show ?thesis by (intro conjI)
qed

text \<open>
  The claim as stated fails at discriminant 10, one of the fourteen of the format
  description: no \<^verbatim>\<open>case\<close> names it, and the decode ends at the \<^verbatim>\<open>default\<close> label.
\<close>

theorem extended_symlink_counterexample:
  "header_read_ok (example_sb image_lsymlink) example_fs 0
   \<and> ids_resolve (example_sb image_lsymlink) example_fs 0
   \<and> header_type (example_sb image_lsymlink) example_fs 0 = 10
   \<and> unknown_inode_type_error
         (squashfs_read_inode (example_sb image_lsymlink) example_fs empty_inode 0)
   \<and> squashfs_read_inode (example_sb image_lsymlink) example_fs empty_inode 0 =
       (- 22,
        empty_inode\<lparr>i_uid := 1000, i_gid := 1000, i_ino := 14, i_mtime_tv_sec := 1700000000,
          i_atime_tv_sec := 1700000000, i_ctime_tv_sec := 1700000000, i_mode := 0x1FF,
          i_size := 0\<rparr>,
        [Read_metadata 0 0 16, Get_id 0, Get_id 0, ERROR_unknown_inode_type 10])"
  by (simp add: example_defs image_lsymlink_def)

subsection \<open>Claims about the reads\<close>

text \<open>
  C9. Every read of a decode starts at the block and offset computed from the locator.
  The header read comes first; when it and the id lookups succeed and the discriminant
  has a case, one more read follows, from the same block and offset, of the size of the
  whole structure of that type, and the case takes its fields from that one buffer. No
  other read is made.
\<close>

theorem reads_same_position:
  "filter is_read (snd (snd (squashfs_read_inode s fs i inode))) =
     (if header_read_ok s fs inode \<and> ids_resolve s fs inode
         \<and> known_type (header_type s fs inode)
      then [Read_metadata (inode_block s inode) (SQUASHFS_INODE_OFFSET inode) (sizeof_base fs),
            Read_metadata (inode_block s inode) (SQUASHFS_INODE_OFFSET inode)
              (sizeof_record fs (header_type s fs inode))]
      else [Read_metadata (inode_block s inode) (SQUASHFS_INODE_OFFSET inode)
              (sizeof_base fs)])"
proof (cases "header_read_ok s fs inode")
  case False
  then show ?thesis
    by (simp add: read_inode_header_failed inode_block_def)
next
  case h: True
  show ?thesis
  proof (cases "ids_resolve s fs inode")
    case False
    with h show ?thesis
      by (simp add: read_inode_ids_failed new_inode_events inode_block_def)
  next
    case ids: True
    show ?thesis
    proof (cases "known_type (header_type s fs inode)")
      case True
      with h ids switch_type_reads [OF True] show ?thesis
        by (simp add: read_inode_switch new_inode_events inode_block_def case_prod_beta)
    next
      case False
      with h ids show ?thesis
        by (simp add: read_inode_switch switch_type_unknown new_inode_events inode_block_def)
    qed
  qed
qed

theorem reads_same_position_witness:
  "filter is_read
     (snd (snd (squashfs_read_inode (example_sb image_dir) example_fs empty_inode 0))) =
     [Read_metadata 0 0 16, Read_metadata 0 0 32]"
  using reads_same_position [where s = "example_sb image_dir" and fs = example_fs
      and inode = 0 and i = empty_inode]
  by (simp add: example_defs image_dir_def)

subsection \<open>Block counts\<close>

lemma ceil_512:
  fixes d :: int
  assumes "1 \<le> d"
  shows "\<lceil>real_of_int d / 512\<rceil> = (d - 1) div 512 + 1"
proof -
  have "\<lceil>real_of_int d / real_of_int 512\<rceil> = - (- d div 512)"
    by (rule ceiling_divide_eq_div)
  moreover have "- (- d div 512) = (d - 1) div 512 + 1"
    using assms by (simp add: div_minus_minus)
  ultimately show ?thesis by simp
qed

lemma lreg_blocks:
  fixes size sparse :: "64 word"
  assumes "uint sparse < uint size"
  shows "uint (drop_bit 9 (size - sparse - 1) + 1) =
           \<lceil>real_of_int (uint size - uint sparse) / 512\<rceil>"
proof -
  let ?d = "uint size - uint sparse"
  have "0 \<le> uint sparse" and "uint size < 18446744073709551616"
    using uint_lt2p [of size] by simp_all
  with assms have d: "1 \<le> ?d" "?d < 18446744073709551616"
    by linarith+
  have sd: "uint (size - sparse) = ?d"
    using assms by (intro uint_sub_lem [THEN iffD1]) simp
  have "uint (size - sparse - 1) = uint (size - sparse) - uint (1 :: 64 word)"
    using d by (intro uint_sub_lem [THEN iffD1]) (simp add: sd)
  then have "uint (size - sparse - 1) = ?d - 1"
    by (simp add: sd)
  then have e: "uint (drop_bit 9 (size - sparse - 1)) = (?d - 1) div 512"
    by (simp add: drop_bit_eq_div uint_div)
  have "(?d - 1) div 512 + 1 < 18446744073709551616"
    using d by linarith
  then have "uint (drop_bit 9 (size - sparse - 1) + 1) = (?d - 1) div 512 + 1"
    using e by (simp add: uint_add_lem [THEN iffD1])
  then show ?thesis
    by (simp only: ceil_512 [OF d(1)])
qed

lemma lreg_blocks_equal:
  fixes size :: "64 word"
  shows "drop_bit 9 (size - size - 1) + 1 = (2 ^ 55 :: 64 word)"
  by (simp add: mask_eq_exp_minus_1)

lemma file_blocks:
  fixes n :: "32 word"
  shows "uint (signed_drop_bit 9 ((ucast n :: 64 word) - 1) + 1) =
           (if 0 < n then \<lceil>real_of_int (uint n) / 512\<rceil> else 0)"
proof (cases "n = 0")
  case True
  then show ?thesis by simp
next
  case False
  let ?x = "ucast n :: 64 word"
  have "uint n \<noteq> 0" "0 \<le> uint n" "uint n < 4294967296"
    using False uint_lt2p [of n] by (simp_all add: uint_0_iff)
  then have n: "1 \<le> uint n" "uint n < 4294967296" by linarith+
  have x: "uint ?x = uint n"
    by (simp add: uint_up_ucast is_up)
  have "uint (?x - 1) = uint ?x - uint (1 :: 64 word)"
    using n by (intro uint_sub_lem [THEN iffD1]) (simp add: x)
  then have u: "uint (?x - 1) = uint n - 1"
    by (simp add: x)
  have s: "sint (?x - 1) = uint n - 1"
    using n by (simp add: sint_uint u signed_take_bit_int_eq_self)
  have "sint (signed_drop_bit 9 (?x - 1)) = (uint n - 1) div 512"
    by (simp add: sint_signed_drop_bit_eq s drop_bit_eq_div)
  then have "signed_drop_bit 9 (?x - 1) = word_of_int ((uint n - 1) div 512)"
    by (metis of_int_sint scast_id)
  then have k: "signed_drop_bit 9 (?x - 1) + 1 = word_of_int ((uint n - 1) div 512 + 1)"
    by simp
  have "0 \<le> (uint n - 1) div 512 + 1" "(uint n - 1) div 512 + 1 < 2 ^ LENGTH(64)"
    using n by simp_all
  then have "uint (word_of_int ((uint n - 1) div 512 + 1) :: 64 word) = (uint n - 1) div 512 + 1"
    unfolding uint_word_of_int_eq by (rule take_bit_int_eq_self)
  then have "uint (signed_drop_bit 9 (?x - 1) + 1) = (uint n - 1) div 512 + 1"
    by (simp only: k)
  moreover have "0 < n"
    using False by (simp add: word_neq_0_conv)
  ultimately show ?thesis
    by (simp only: ceil_512 [OF n(1)] if_True)
qed

lemma switch_type_file_blocks:
  assumes "fst (switch_type s fs i inode SQUASHFS_FILE_TYPE b ofs) = 0"
  shows "i_size (fst (snd (switch_type s fs i inode SQUASHFS_FILE_TYPE b ofs))) =
           ucast (le32_to_cpu (big_endian s) (reg_file_size
             (as_reg fs (fst (snd (squashfs_read_metadata s b ofs (sizeof_reg fs)))))))
         \<and> i_blocks (fst (snd (switch_type s fs i inode SQUASHFS_FILE_TYPE b ofs))) =
           signed_drop_bit 9
             (ucast (le32_to_cpu (big_endian s) (reg_file_size
               (as_reg fs (fst (snd (squashfs_read_metadata s b ofs (sizeof_reg fs))))))) - 1)
           + 1"
  using assms
  by (simp add: switch_type_def squashfs_types read_case_defs fragment_lookup_eq
        failed_read_def case_prod_beta Let_def split: if_splits)

lemma switch_type_lreg_blocks:
  assumes "fst (switch_type s fs i inode SQUASHFS_LREG_TYPE b ofs) = 0"
  shows "i_size (fst (snd (switch_type s fs i inode SQUASHFS_LREG_TYPE b ofs))) =
           le64_to_cpu (big_endian s) (lreg_file_size
             (as_lreg fs (fst (snd (squashfs_read_metadata s b ofs (sizeof_lreg fs))))))
         \<and> i_blocks (fst (snd (switch_type s fs i inode SQUASHFS_LREG_TYPE b ofs))) =
           drop_bit 9
             (le64_to_cpu (big_endian s) (lreg_file_size
                (as_lreg fs (fst (snd (squashfs_read_metadata s b ofs (sizeof_lreg fs))))))
              - le64_to_cpu (big_endian s) (lreg_sparse
                (as_lreg fs (fst (snd (squashfs_read_metadata s b ofs (sizeof_lreg fs))))))
              - 1)
           + 1"
  using assms
  by (simp add: switch_type_def squashfs_types read_case_defs fragment_lookup_eq
        failed_read_def case_prod_beta Let_def split: if_splits)

text \<open>
  The block count of a basic regular file is the size in units of 512 bytes, rounded up,
  and 0 for an empty file. That of an extended regular file is the size less the sparse
  bytes in units of 512 bytes, rounded up, when there are fewer sparse bytes than bytes;
  when the two are equal it is \<open>2 ^ 55\<close>, since the subtraction of 1 wraps around in
  unsigned arithmetic before the logical shift.
\<close>

lemma basic_file_blocks:
  assumes "fst (squashfs_read_inode s fs i inode) = 0"
    and "header_type s fs inode = SQUASHFS_FILE_TYPE"
  shows "i_size (fst (snd (squashfs_read_inode s fs i inode))) =
           ucast (le32_to_cpu (big_endian s) (reg_file_size (reg_record s fs inode)))
         \<and> uint (i_blocks (fst (snd (squashfs_read_inode s fs i inode)))) =
           (if 0 < le32_to_cpu (big_endian s) (reg_file_size (reg_record s fs inode))
            then \<lceil>real_of_int (uint (le32_to_cpu (big_endian s) (reg_file_size (reg_record s fs inode)))) / 512\<rceil>
            else 0)"
  using success_switch [OF assms(1)] assms(2) switch_type_file_blocks [of s fs _ inode]
  by (simp add: reg_record_def read_at_def file_blocks)

lemma extended_file_blocks:
  assumes "fst (squashfs_read_inode s fs i inode) = 0"
    and "header_type s fs inode = SQUASHFS_LREG_TYPE"
  shows "i_size (fst (snd (squashfs_read_inode s fs i inode))) =
           le64_to_cpu (big_endian s) (lreg_file_size (lreg_record s fs inode))
         \<and> (uint (le64_to_cpu (big_endian s) (lreg_sparse (lreg_record s fs inode)))
               < uint (le64_to_cpu (big_endian s) (lreg_file_size (lreg_record s fs inode))) \<longrightarrow>
             uint (i_blocks (fst (snd (squashfs_read_inode s fs i inode)))) =
               \<lceil>real_of_int (uint (le64_to_cpu (big_endian s) (lreg_file_size (lreg_record s fs inode)))
                    - uint (le64_to_cpu (big_endian s) (lreg_sparse (lreg_record s fs inode)))) / 512\<rceil>)
         \<and> (le64_to_cpu (big_endian s) (lreg_sparse (lreg_record s fs inode))
               = le64_to_cpu (big_endian s) (lreg_file_size (lreg_record s fs inode)) \<longrightarrow>
             i_blocks (fst (snd (squashfs_read_inode s fs i inode))) = 2 ^ 55)"
  using success_switch [OF assms(1)] assms(2) switch_type_lreg_blocks [of s fs _ inode]
  by (simp add: lreg_record_def read_at_def lreg_blocks mask_eq_exp_minus_1)

text \<open>A size of 10240 with 2048 sparse bytes gives 16 blocks.\<close>

lemma extended_file_blocks_example:
  "fst (squashfs_read_inode (example_sb image_lreg) example_fs empty_inode 0) = 0
   \<and> header_type (example_sb image_lreg) example_fs 0 = SQUASHFS_LREG_TYPE
   \<and> lreg_file_size (lreg_record (example_sb image_lreg) example_fs 0) = 10240
   \<and> lreg_sparse (lreg_record (example_sb image_lreg) example_fs 0) = 2048
   \<and> i_blocks (fst (snd (squashfs_read_inode (example_sb image_lreg) example_fs empty_inode 0)))
       = 16"
  by (simp add: example_defs image_lreg_def)

text \<open>
  C3. The claim gives an empty regular file, basic or extended, the block count 0. The
  empty extended regular file of the example (size 0, no sparse bytes, two links) decodes
  without error to size 0 and block count \<open>2 ^ 55 = 36028797018963968\<close>.
\<close>

theorem extended_empty_file_blocks:
  "fst (squashfs_read_inode (example_sb image_lreg_empty) example_fs empty_inode 0) = 0
   \<and> header_type (example_sb image_lreg_empty) example_fs 0 = SQUASHFS_LREG_TYPE
   \<and> lreg_file_size (lreg_record (example_sb image_lreg_empty) example_fs 0) = 0
   \<and> lreg_sparse (lreg_record (example_sb image_lreg_empty) example_fs 0) = 0
   \<and> i_size (fst (snd (squashfs_read_inode (example_sb image_lreg_empty) example_fs
         empty_inode 0))) = 0
   \<and> i_blocks (fst (snd (squashfs_read_inode (example_sb image_lreg_empty) example_fs
         empty_inode 0))) = 36028797018963968"
  by (simp add: example_defs image_lreg_empty_def mask_eq_exp_minus_1)


subsection \<open>Fragments\<close>

lemma switch_type_sentinel:
  assumes "t = SQUASHFS_FILE_TYPE
             \<and> le32_to_cpu (big_endian s) (reg_fragment
                 (as_reg fs (fst (snd (squashfs_read_metadata s b ofs (sizeof_reg fs))))))
               = SQUASHFS_INVALID_FRAG
           \<or> t = SQUASHFS_LREG_TYPE
             \<and> le32_to_cpu (big_endian s) (lreg_fragment
                 (as_lreg fs (fst (snd (squashfs_read_metadata s b ofs (sizeof_lreg fs))))))
               = SQUASHFS_INVALID_FRAG"
  shows "\<not> list_ex is_fragment_lookup (snd (snd (switch_type s fs i inode t b ofs)))"
    and "fst (switch_type s fs i inode t b ofs) = 0 \<longleftrightarrow>
           0 \<le> fst (squashfs_read_metadata s b ofs (sizeof_record fs t))"
    and "fst (switch_type s fs i inode t b ofs) = 0 \<Longrightarrow>
           sq_fragment_block (fst (snd (switch_type s fs i inode t b ofs)))
             = SQUASHFS_INVALID_BLK fs
           \<and> sq_fragment_size (fst (snd (switch_type s fs i inode t b ofs))) = 0
           \<and> sq_fragment_offset (fst (snd (switch_type s fs i inode t b ofs))) = 0"
  using assms
  by (auto simp: switch_type_def sizeof_record_def squashfs_types read_case_defs
      fragment_lookup_eq failed_read_def case_prod_beta Let_def split: if_splits)

text \<open>
  C4. When the record of a regular file, basic or extended, holds the all-ones fragment
  index, the decode makes no fragment lookup; it succeeds exactly when the header read,
  the id lookups and the record read do; and the inode it then returns has fragment
  block \<^verbatim>\<open>SQUASHFS_INVALID_BLK\<close>, fragment size 0 and fragment offset 0, whatever the
  offset field of the record holds.
\<close>

theorem no_fragment_sentinel:
  assumes "header_type s fs inode = SQUASHFS_FILE_TYPE
             \<and> le32_to_cpu (big_endian s) (reg_fragment (reg_record s fs inode)) = SQUASHFS_INVALID_FRAG
           \<or> header_type s fs inode = SQUASHFS_LREG_TYPE
             \<and> le32_to_cpu (big_endian s) (lreg_fragment (lreg_record s fs inode)) = SQUASHFS_INVALID_FRAG"
  shows "\<not> list_ex is_fragment_lookup (snd (snd (squashfs_read_inode s fs i inode)))
         \<and> (fst (squashfs_read_inode s fs i inode) = 0 \<longleftrightarrow>
              header_read_ok s fs inode \<and> ids_resolve s fs inode
              \<and> 0 \<le> fst (read_at s inode (sizeof_record fs (header_type s fs inode))))
         \<and> (fst (squashfs_read_inode s fs i inode) = 0 \<longrightarrow>
              sq_fragment_block (fst (snd (squashfs_read_inode s fs i inode)))
                = SQUASHFS_INVALID_BLK fs
              \<and> sq_fragment_size (fst (snd (squashfs_read_inode s fs i inode))) = 0
              \<and> sq_fragment_offset (fst (snd (squashfs_read_inode s fs i inode))) = 0)"
proof (cases "header_read_ok s fs inode")
  case False
  then show ?thesis
    by (simp add: read_inode_header_failed header_read_ok_def)
next
  case h: True
  show ?thesis
  proof (cases "ids_resolve s fs inode")
    case False
    with h new_inode_ok_iff [of s i fs inode] show ?thesis
      by (simp add: read_inode_ids_failed new_inode_events)
  next
    case ids: True
    let ?b = "ucast (SQUASHFS_INODE_BLK inode) + inode_table_start s"
    let ?i = "fst (snd (squashfs_new_inode s i (header s fs inode)))"
    let ?sw = "switch_type s fs ?i inode (header_type s fs inode) ?b
                 (SQUASHFS_INODE_OFFSET inode)"
    have a: "header_type s fs inode = SQUASHFS_FILE_TYPE
             \<and> le32_to_cpu (big_endian s) (reg_fragment (as_reg fs (fst (snd (squashfs_read_metadata s ?b
                 (SQUASHFS_INODE_OFFSET inode) (sizeof_reg fs))))))
               = SQUASHFS_INVALID_FRAG
           \<or> header_type s fs inode = SQUASHFS_LREG_TYPE
             \<and> le32_to_cpu (big_endian s) (lreg_fragment (as_lreg fs (fst (snd (squashfs_read_metadata s ?b
                 (SQUASHFS_INODE_OFFSET inode) (sizeof_lreg fs))))))
               = SQUASHFS_INVALID_FRAG"
      using assms by (simp add: reg_record_def lreg_record_def read_at_def)
    note sw = switch_type_sentinel [OF a, of ?i inode]
    have R: "squashfs_read_inode s fs i inode =
        (fst ?sw, fst (snd ?sw),
         Read_metadata ?b (SQUASHFS_INODE_OFFSET inode) (sizeof_base fs) #
         snd (snd (squashfs_new_inode s i (header s fs inode))) @ snd (snd ?sw))"
      by (simp add: read_inode_switch [OF h ids] case_prod_beta)
    show ?thesis
      using sw h ids by (simp add: R new_inode_events read_at_def)
  qed
qed

theorem no_fragment_sentinel_witness:
  "header_type (example_sb image_file) example_fs 0 = SQUASHFS_FILE_TYPE
   \<and> le32_to_cpu (big_endian (example_sb image_file)) (reg_fragment (reg_record (example_sb image_file) example_fs 0))
       = SQUASHFS_INVALID_FRAG
   \<and> reg_offset (reg_record (example_sb image_file) example_fs 0) = 5
   \<and> fst (squashfs_read_inode (example_sb image_file) example_fs empty_inode 0) = 0
   \<and> snd (snd (squashfs_read_inode (example_sb image_file) example_fs empty_inode 0)) =
       [Read_metadata 0 0 16, Get_id 0, Get_id 1, Read_metadata 0 0 32]
   \<and> sq_fragment_block
        (fst (snd (squashfs_read_inode (example_sb image_file) example_fs empty_inode 0)))
       = SQUASHFS_INVALID_BLK example_fs
   \<and> sq_fragment_size
        (fst (snd (squashfs_read_inode (example_sb image_file) example_fs empty_inode 0))) = 0
   \<and> sq_fragment_offset
        (fst (snd (squashfs_read_inode (example_sb image_file) example_fs empty_inode 0))) = 0"
  using no_fragment_sentinel [where s = "example_sb image_file" and fs = example_fs
      and inode = 0 and i = empty_inode]
  by (simp add: example_defs image_file_def)

text \<open>With another fragment index the lookup is made, after the record read.\<close>

lemma fragment_lookup_example:
  "snd (snd (squashfs_read_inode (example_sb image_file_frag) example_fs empty_inode 0)) =
     [Read_metadata 0 0 16, Get_id 0, Get_id 1, Read_metadata 0 0 32, Get_fragment_location 3]
   \<and> sq_fragment_block
        (fst (snd (squashfs_read_inode (example_sb image_file_frag) example_fs empty_inode 0)))
       = 8195
   \<and> sq_fragment_size
        (fst (snd (squashfs_read_inode (example_sb image_file_frag) example_fs empty_inode 0)))
       = 512
   \<and> sq_fragment_offset
        (fst (snd (squashfs_read_inode (example_sb image_file_frag) example_fs empty_inode 0)))
       = 40"
  by (simp add: example_defs image_file_frag_def)

subsection \<open>A whole decode\<close>

text \<open>
  The basic directory of the example: mode 0755 with the directory bits is 040755
  (0x41ED), and the three times are the stored one.
\<close>

lemma directory_example:
  "squashfs_iget (example_sb image_dir) example_fs 0 42 =
     (Inr (empty_inode\<lparr>i_ino := 42, i_mode := 0x41ED, i_uid := 1000, i_gid := 1000,
        i_nlink := 2, i_size := 64, i_mtime_tv_sec := 1700000000,
        i_atime_tv_sec := 1700000000, i_ctime_tv_sec := 1700000000,
        i_op := Some squashfs_dir_inode_ops, i_fop := Some squashfs_dir_ops,
        sq_start_block := 0x1000, sq_offset := 16, sq_dir_index_count := 0,
        sq_parent_inode := 1\<rparr>),
      [Read_metadata 0 0 16, Get_id 0, Get_id 0, Read_metadata 0 0 32])"
  by (simp add: example_defs image_dir_def)

text \<open>The fifo of the example: mode 0600 with the fifo bits is 010600 (0x1180), size 0.\<close>

lemma fifo_example:
  "squashfs_iget (example_sb image_fifo) example_fs 0 13 =
     (Inr (empty_inode\<lparr>i_ino := 13, i_mode := 0x1180, i_uid := 1000, i_gid := 1000,
        i_nlink := 1, i_size := 0, i_mtime_tv_sec := 1700000000,
        i_atime_tv_sec := 1700000000, i_ctime_tv_sec := 1700000000,
        i_fop := Some def_fifo_fops\<rparr>),
      [Read_metadata 0 0 16, Get_id 0, Get_id 0, Read_metadata 0 0 20])"
  by (simp add: example_defs image_fifo_def)

end
